theory Spec2Isabelle
  imports Main "HOL-Library.Word"
begin

section \<open>Basic data\<close>

text \<open>
  Addresses are 20 bytes, hashes and storage words 32 bytes, gas is an unsigned
  64-bit integer whose arithmetic wraps. Go's \<open>*big.Int\<close> is an unbounded
  integer that may be \<open>nil\<close>: an \<open>int option\<close> where the source tests for nil,
  an \<open>int\<close> where it cannot be nil. Byte slices are lists of bytes; their
  lengths (Go \<open>int\<close>) are natural numbers, converted with \<open>of_nat\<close> where
  the source writes \<open>uint64(len(..))\<close>.
\<close>

type_synonym address = "160 word"
type_synonym hash = "256 word"
type_synonym u64 = "64 word"
type_synonym bytes = "8 word list"

datatype error =
    ErrInvalidInputData
  | ErrUnauthorizedCaller
  | ErrNotEnoughFunds
  | ErrInsufficientBalance
  | ErrDepth
  | ErrContractAddressCollision
  | ErrOutOfGas
  | ErrNotAuth
  | ErrMaxCodeSizeExceeded
  | ErrCodeStoreOutOfGas
  | ErrNonceUintOverflow
  | ErrSnapshotOutOfRange
  | ErrBufferTooSmall
  | ErrNilPointer
  | ErrNonceIncorrect
  | ErrNotEnoughFundsForGas
  | ErrBlockLimitReached
  | ErrIntrinsicGasOverflow
  | ErrNotEnoughIntrinsicGas
  | ErrMaxInitCodeSizeExceeded
  | ErrTxTypeNotSupported
  | ErrTypedTxNotAllowed
  | ErrGasPriceNotSet
  | ErrStateTxGasPrice
  | ErrStateTxGas
  | ErrStateTxSender
  | ErrStateTxTo
  | ErrOther nat

record log =
  l_Address :: address
  l_Topics :: "hash list"
  l_Data :: bytes
  l_BlockNumber :: u64
  l_TxHash :: hash

text \<open>Big-endian bytes of a word and back (\<open>types.BytesToHash\<close>, \<open>big.Int.SetBytes\<close>,
  \<open>big.Int.Bytes\<close>, \<open>LeftPadBytes\<close>).\<close>

definition be_bytes :: "nat \<Rightarrow> 'a::len word \<Rightarrow> bytes" where
  "be_bytes n w = map (\<lambda>i. ucast (drop_bit (8 * i) w)) (rev [0..<n])"

definition bytes_to_nat :: "bytes \<Rightarrow> nat" where
  "bytes_to_nat bs = foldl (\<lambda>acc b. acc * 256 + unat b) 0 bs"

definition BytesToHash :: "bytes \<Rightarrow> hash" where
  "BytesToHash bs = of_nat (bytes_to_nat bs)"

function nat_to_bytes :: "nat \<Rightarrow> bytes" where
  "nat_to_bytes n = (if n = 0 then [] else nat_to_bytes (n div 256) @ [of_nat (n mod 256)])"
  by pat_completeness auto
termination
  by (relation "measure id") auto

declare nat_to_bytes.simps [simp del]

definition big_Bytes :: "int \<Rightarrow> bytes" where
  "big_Bytes v = nat_to_bytes (nat \<bar>v\<bar>)"

definition LeftPadBytes :: "bytes \<Rightarrow> nat \<Rightarrow> bytes" where
  "LeftPadBytes input n =
     (if length input \<ge> n then input else replicate (n - length input) 0 @ input)"

section \<open>The journalled state (Txn)\<close>

record world =
  balances :: "address \<Rightarrow> int"
  nonces :: "address \<Rightarrow> u64"
  codes :: "address \<Rightarrow> bytes"
  storage :: "address \<Rightarrow> hash \<Rightarrow> hash"
  logs :: "log list"
  refund :: u64

record txn =
  objs :: world
  snapshots :: "world list"

text \<open>
  Modelled from the spec: the journal \<open>Txn\<close> (package state) is not among the
  sources. Section 4.A and the design notes describe it: \<open>Snapshot()\<close> returns an
  identifier naming the current journal depth, \<open>RevertToSnapshot(id)\<close> discards all
  mutations and logs recorded after \<open>id\<close>; \<open>SubBalance\<close> fails with NotEnoughFunds
  when the account lacks balance; \<open>IncrNonce\<close> fails with NonceUintOverflow on wrap;
  logs are append-only and part of the snapshot scope. The call sites in the sources
  handle an error of \<open>RevertToSnapshot\<close>: it is the identifier naming no snapshot.
\<close>

definition txn_GetBalance :: "txn \<Rightarrow> address \<Rightarrow> int" where
  "txn_GetBalance s a = balances (objs s) a"

definition txn_AddBalance :: "address \<Rightarrow> int \<Rightarrow> txn \<Rightarrow> txn" where
  "txn_AddBalance a v s =
     s\<lparr>objs := (objs s)\<lparr>balances := (balances (objs s))(a := balances (objs s) a + v)\<rparr>\<rparr>"

definition txn_SubBalance :: "address \<Rightarrow> int \<Rightarrow> txn \<Rightarrow> error + txn" where
  "txn_SubBalance a v s =
     (if balances (objs s) a < v then Inl ErrNotEnoughFunds
      else Inr (s\<lparr>objs := (objs s)\<lparr>balances := (balances (objs s))(a := balances (objs s) a - v)\<rparr>\<rparr>))"

definition txn_GetNonce :: "txn \<Rightarrow> address \<Rightarrow> u64" where
  "txn_GetNonce s a = nonces (objs s) a"

definition txn_IncrNonce :: "address \<Rightarrow> txn \<Rightarrow> error + txn" where
  "txn_IncrNonce a s =
     (if nonces (objs s) a + 1 < nonces (objs s) a then Inl ErrNonceUintOverflow
      else Inr (s\<lparr>objs := (objs s)\<lparr>nonces := (nonces (objs s))(a := nonces (objs s) a + 1)\<rparr>\<rparr>))"

definition txn_GetCode :: "txn \<Rightarrow> address \<Rightarrow> bytes" where
  "txn_GetCode s a = codes (objs s) a"

definition txn_SetCode :: "address \<Rightarrow> bytes \<Rightarrow> txn \<Rightarrow> txn" where
  "txn_SetCode a code s = s\<lparr>objs := (objs s)\<lparr>codes := (codes (objs s))(a := code)\<rparr>\<rparr>"

definition txn_GetState :: "txn \<Rightarrow> address \<Rightarrow> hash \<Rightarrow> hash" where
  "txn_GetState s a k = storage (objs s) a k"

definition txn_SetState :: "address \<Rightarrow> hash \<Rightarrow> hash \<Rightarrow> txn \<Rightarrow> txn" where
  "txn_SetState a k v s =
     s\<lparr>objs := (objs s)\<lparr>storage := (storage (objs s))(a := (storage (objs s) a)(k := v))\<rparr>\<rparr>"

definition txn_EmitLog :: "address \<Rightarrow> hash list \<Rightarrow> bytes \<Rightarrow> txn \<Rightarrow> txn" where
  "txn_EmitLog a topics data s =
     s\<lparr>objs := (objs s)\<lparr>logs := logs (objs s) @
        [\<lparr>l_Address = a, l_Topics = topics, l_Data = data, l_BlockNumber = 0, l_TxHash = 0\<rparr>]\<rparr>\<rparr>"

definition txn_GetRefund :: "txn \<Rightarrow> u64" where
  "txn_GetRefund s = refund (objs s)"

definition txn_Snapshot :: "txn \<Rightarrow> nat \<times> txn" where
  "txn_Snapshot s = (length (snapshots s), s\<lparr>snapshots := snapshots s @ [objs s]\<rparr>)"

definition txn_RevertToSnapshot :: "nat \<Rightarrow> txn \<Rightarrow> error + txn" where
  "txn_RevertToSnapshot i s =
     (if i < length (snapshots s) then Inr (s\<lparr>objs := snapshots s ! i\<rparr>)
      else Inl ErrSnapshotOutOfRange)"

section \<open>The access list (package runtime)\<close>

record access_list =
  al_addresses :: "address set"
  al_slots :: "address \<Rightarrow> hash set option"

text \<open>The chain-specific precompile addresses come from package contracts, which is
  not among the sources: they are parameters.\<close>

record contract_addrs =
  NativeTransferPrecompile :: address
  BLSAggSigsVerificationPrecompile :: address
  ConsolePrecompile :: address
  EngineExecutePrecompile :: address
  SystemCaller :: address

definition precompiledContracts :: "contract_addrs \<Rightarrow> address list" where
  "precompiledContracts ca =
     [1, 2, 3, 4, 5, 6, 7, 8, 9,
      NativeTransferPrecompile ca, BLSAggSigsVerificationPrecompile ca,
      ConsolePrecompile ca, EngineExecutePrecompile ca]"

definition NewAccessList :: "contract_addrs \<Rightarrow> address list \<Rightarrow> access_list" where
  "NewAccessList ca init =
     \<lparr>al_addresses = set init \<union> set (precompiledContracts ca), al_slots = (\<lambda>_. None)\<rparr>"

text \<open>\<open>Copy\<close> allocates fresh maps with the same content; on values it is the identity.
  \<open>RevertTo\<close> replaces both maps by the snapshot's.\<close>

definition Copy :: "access_list \<Rightarrow> access_list" where
  "Copy al = \<lparr>al_addresses = al_addresses al, al_slots = al_slots al\<rparr>"

definition RevertTo :: "access_list \<Rightarrow> access_list \<Rightarrow> access_list" where
  "RevertTo al snapshot = al\<lparr>al_addresses := al_addresses snapshot, al_slots := al_slots snapshot\<rparr>"

definition ContainsAddress :: "access_list \<Rightarrow> address \<Rightarrow> bool" where
  "ContainsAddress al a = (a \<in> al_addresses al)"

definition AddAddress :: "address \<Rightarrow> access_list \<Rightarrow> bool \<times> access_list" where
  "AddAddress a al =
     (if ContainsAddress al a then (False, al)
      else (True, al\<lparr>al_addresses := insert a (al_addresses al)\<rparr>))"

definition ContainsSlot :: "access_list \<Rightarrow> address \<Rightarrow> hash \<Rightarrow> bool" where
  "ContainsSlot al a slot =
     (case al_slots al a of None \<Rightarrow> False | Some sm \<Rightarrow> slot \<in> sm)"

definition AddSlot :: "address \<Rightarrow> hash \<Rightarrow> access_list \<Rightarrow> (bool \<times> bool) \<times> access_list" where
  "AddSlot a slot al =
     (let (addrAdded, al1) = AddAddress a al;
          sm = (case al_slots al1 a of None \<Rightarrow> {} | Some sm \<Rightarrow> sm);
          al2 = al1\<lparr>al_slots := (al_slots al1)(a \<mapsto> sm)\<rparr>
      in if slot \<in> sm then ((addrAdded, False), al2)
         else ((addrAdded, True), al2\<lparr>al_slots := (al_slots al2)(a \<mapsto> insert slot sm)\<rparr>))"

section \<open>The transition and its host interface (package state)\<close>

record forks =
  Homestead :: bool
  Istanbul :: bool
  EIP155 :: bool
  EIP158 :: bool
  EIP2929 :: bool
  EIP2930 :: bool
  EIP3651 :: bool
  EIP3860 :: bool
  London :: bool
  TxHashWithType :: bool

text \<open>\<open>runtime.TxContext\<close>. \<open>Timestamp\<close> and \<open>Number\<close> are \<open>int64\<close> fields filled
  from and read back as \<open>uint64\<close>; they are kept as 64-bit words.\<close>

record tx_context =
  ctx_GasPrice :: hash
  ctx_Origin :: address
  ctx_Coinbase :: address
  ctx_Number :: u64
  ctx_Timestamp :: u64
  ctx_BaseFee :: "int option"
  ctx_GasLimit :: u64
  ctx_AccessList :: "access_list option"
  ctx_NonPayable :: bool

datatype call_type = Call | CallCode | DelegateCall | StaticCall | Create | Create2

record contract =
  c_Type :: call_type
  c_Depth :: int
  c_Origin :: address
  c_Caller :: address
  c_Address :: address
  c_CodeAddress :: address
  c_Value :: "int option"
  c_Gas :: u64
  c_Code :: bytes
  c_Input :: bytes

record exec_result =
  ReturnValue :: bytes
  GasLeft :: u64
  GasUsed :: u64
  Err :: "error option"
  r_Address :: address

datatype receipt_status = ReceiptFailed | ReceiptSuccess

datatype tx_type = LegacyTx | StateTx | DynamicFeeTx | AccessListTx

record receipt =
  rc_Status :: receipt_status
  rc_CumulativeGasUsed :: u64
  rc_TransactionType :: tx_type
  rc_TxHash :: hash
  rc_GasUsed :: u64
  rc_ContractAddress :: "address option"
  rc_Logs :: "log list"
  rc_LogsBloom :: bytes

record transition =
  state :: txn
  ctx :: tx_context
  config :: forks
  gasPool :: u64
  receipts :: "receipt list"
  totalGas :: u64
  donationFee :: "int option"
  validatorFee :: "int option"
  burnedFee :: "int option"

text \<open>
  Modelled from the spec: \<open>runtime.ExecutionResult\<close> and the contract constructors are
  not among the sources. Section 4.F sets the receipt status from the execution result:
  a result has failed iff it carries an error. \<open>NewContractCall(depth, origin, from,
  to, value, gas, code, input)\<close> builds the CALL frame of section 4.E (caller = user,
  value, gas, target code from the host).
\<close>

definition Failed :: "exec_result \<Rightarrow> bool" where
  "Failed r = (Err r \<noteq> None)"

definition Succeeded :: "exec_result \<Rightarrow> bool" where
  "Succeeded r = (Err r = None)"

definition NewContractCall ::
  "int \<Rightarrow> address \<Rightarrow> address \<Rightarrow> address \<Rightarrow> int option \<Rightarrow> u64 \<Rightarrow> bytes \<Rightarrow> bytes \<Rightarrow> contract" where
  "NewContractCall depth origin from to v gas code input =
     \<lparr>c_Type = Call, c_Depth = depth, c_Origin = origin, c_Caller = from, c_Address = to,
      c_CodeAddress = to, c_Value = v, c_Gas = gas, c_Code = code, c_Input = input\<rparr>"

definition NewContractCreation ::
  "int \<Rightarrow> address \<Rightarrow> address \<Rightarrow> address \<Rightarrow> int option \<Rightarrow> u64 \<Rightarrow> bytes \<Rightarrow> contract" where
  "NewContractCreation depth origin from to v gas code =
     \<lparr>c_Type = Create, c_Depth = depth, c_Origin = origin, c_Caller = from, c_Address = to,
      c_CodeAddress = to, c_Value = v, c_Gas = gas, c_Code = code, c_Input = []\<rparr>"

text \<open>The result literal \<open>&runtime.ExecutionResult{GasLeft: g, Err: e}\<close>.\<close>

definition failure :: "u64 \<Rightarrow> error \<Rightarrow> exec_result" where
  "failure g e = \<lparr>ReturnValue = [], GasLeft = g, GasUsed = 0, Err = Some e, r_Address = 0\<rparr>"

text \<open>The decoded arguments of \<open>ENGINE_EXECUTE\<close> (package precompiled). A Go string is
  its sequence of bytes.\<close>

record inGrant =
  g_From :: address
  g_Engine :: address
  g_XRC729 :: address
  g_OstcId :: string
  g_OstcHash :: hash
  g_ProcessId :: "int option"
  g_SessionId :: "int option"
  g_MaxTotalGas :: "int option"
  g_Expiry :: "int option"
  g_ChainId :: "int option"

record inCall =
  call_To :: address
  call_Data :: bytes
  call_ValueWei :: "int option"
  call_GasLimit :: u64
  call_ValidationGas :: u64
  call_MaxFeePerGas :: "int option"
  call_Deadline :: u64
  call_GrantFeeSeconds :: u64
  call_GrantFeePerYearWei :: "int option"

record inMeta =
  m_Iteration :: u64
  m_StepId :: string
  m_RuleContract :: address
  m_RuleHash :: hash
  m_Payload :: bytes
  m_ApiSaves :: bytes
  m_ContractSaves :: bytes
  m_Extras :: bytes

text \<open>The ABI codec is the library ethgo: method selectors, event identifiers,
  decoders (\<open>None\<close> when decoding or a type assertion fails) and encoders are
  parameters. The encoders of the two events and of the output ignore their error
  in the source; the encoders whose error the source tests return an option.\<close>

record abi =
  id_ENGINE_EXECUTE :: bytes
  id_ENGINE_GET_NEXT_PID :: bytes
  id_ENGINE_IS_PID_USED :: bytes
  id_BILL_GRANTS_ONLY :: bytes
  decode_ENGINE_EXECUTE :: "bytes \<Rightarrow> (inGrant \<times> inCall \<times> inMeta) option"
  decode_ENGINE_GET_NEXT_PID :: "bytes \<Rightarrow> address option"
  decode_ENGINE_IS_PID_USED :: "bytes \<Rightarrow> (address \<times> int option) option"
  decode_BILL_GRANTS_ONLY :: "bytes \<Rightarrow> (address \<times> u64 \<times> int option) option"
  engineMetaEvent_ID :: bytes
  engineExtrasEvent_ID :: bytes
  encode_EngineMeta ::
    "int option \<Rightarrow> u64 \<Rightarrow> address \<Rightarrow> string \<Rightarrow> hash \<Rightarrow> string \<Rightarrow> address \<Rightarrow> hash \<Rightarrow>
     address \<Rightarrow> bool \<Rightarrow> bytes \<Rightarrow> bytes \<Rightarrow> bytes \<Rightarrow> bytes"
  encode_EngineExtras :: "int \<Rightarrow> bytes \<Rightarrow> bytes"
  encode_GrantFeeCharged :: "address \<Rightarrow> address \<Rightarrow> int \<Rightarrow> int \<Rightarrow> int \<Rightarrow> bytes option"
  encode_result :: "bool \<Rightarrow> u64 \<Rightarrow> int \<Rightarrow> int \<Rightarrow> bytes"
  encode_uint256 :: "int \<Rightarrow> bytes option"
  abiBoolTrue :: bytes
  abiBoolFalse :: bytes

text \<open>Package crypto and the two chain variables that genesis sets.\<close>

record crypto =
  Keccak256 :: "bytes \<Rightarrow> bytes"
  CreateAddress :: "address \<Rightarrow> u64 \<Rightarrow> address"

record chain_cfg =
  EngineRegistryAddress :: address
  BootstrapEngineEOA :: address

text \<open>Transactions, headers and blocks (package types), with the fields the sources
  read.\<close>

record access_tuple =
  at_Address :: address
  at_StorageKeys :: "hash list"

record transaction =
  tx_Type :: tx_type
  tx_Nonce :: u64
  tx_GasPrice :: "int option"
  tx_GasTipCap :: "int option"
  tx_GasFeeCap :: "int option"
  tx_Gas :: u64
  tx_To :: "address option"
  tx_Value :: int
  tx_Input :: bytes
  tx_AccessList :: "access_tuple list"
  tx_From :: address
  tx_Hash :: hash

record header =
  h_Number :: u64
  h_GasLimit :: u64
  h_Timestamp :: u64
  h_BaseFee :: u64


datatype tx_error =
    TransitionApplicationError error bool
  | GasLimitReachedTransitionApplicationError error
  | PlainError error

text \<open>
  What the sources call but do not contain is a parameter: the runtime dispatch
  \<open>Transition.run\<close> (allow and block lists, the precompiles and the EVM interpreter,
  which re-enter \<open>applyCall\<close> and \<open>applyCreate\<close> through \<open>Callx\<close>), the journal's
  \<open>TouchAccount\<close>, \<open>CreateAccount\<close> and \<open>GetCodeHash\<close>, and the deployment allow and
  block lists. Of a role the sources observe \<open>Enabled()\<close> and the comparison with
  \<open>EnabledRole\<close>. The environment also carries the hashing, the chain variables, the
  addresses of package contracts and the ABI codec; the methods of a transaction and of
  an execution result (\<open>GetGasPrice\<close>, \<open>UpdateGasUsed\<close>), the London handler
  (\<open>checkDynamicFees\<close>, \<open>getUpfrontGasCost\<close>), the signer, the journal's \<open>Logs\<close> and
  \<open>CleanDeleteObjects\<close>, the bloom filter, the post hook, the gas limit of state
  transactions and the executor's \<open>BeginTxn\<close>, whose collaborators are not among the
  sources either.
\<close>

record role =
  Enabled :: bool
  isEnabledRole :: bool

record env =
  run :: "contract \<Rightarrow> transition \<Rightarrow> exec_result \<times> transition"
  touchAccount :: "address \<Rightarrow> txn \<Rightarrow> txn"
  createAccount :: "address \<Rightarrow> txn \<Rightarrow> txn"
  getCodeHash :: "txn \<Rightarrow> address \<Rightarrow> hash"
  EmptyCodeHash :: hash
  deploymentAllowList :: "(transition \<Rightarrow> address \<Rightarrow> role) option"
  deploymentBlockList :: "(transition \<Rightarrow> address \<Rightarrow> role) option"
  hashing :: crypto
  chain :: chain_cfg
  addrs :: contract_addrs
  codec :: abi
  getGasPrice :: "transaction \<Rightarrow> u64 \<Rightarrow> int"
  checkDynamicFees :: "transaction \<Rightarrow> transition \<Rightarrow> error option"
  getUpfrontGasCost :: "transaction \<Rightarrow> int option \<Rightarrow> int"
  updateGasUsed :: "exec_result \<Rightarrow> u64 \<Rightarrow> u64 \<Rightarrow> exec_result"
  sender :: "transaction \<Rightarrow> error + address"
  txnLogs :: "txn \<Rightarrow> log list \<times> txn"
  cleanDeleteObjects :: "txn \<Rightarrow> error + txn"
  createBloom :: "log list \<Rightarrow> bytes"
  postHook :: "(transition \<Rightarrow> transition) option"
  StateTransactionGasLimit :: u64
  beginTxn :: "hash \<Rightarrow> header \<Rightarrow> address \<Rightarrow> error + transition"

definition SpuriousDragonMaxCodeSize :: nat where
  "SpuriousDragonMaxCodeSize = 24576"

definition TxPoolMaxInitCodeSize :: nat where
  "TxPoolMaxInitCodeSize = 2 * SpuriousDragonMaxCodeSize"

definition Transfer :: "address \<Rightarrow> address \<Rightarrow> int option \<Rightarrow> transition \<Rightarrow> error option \<times> transition" where
  "Transfer from to amount t =
     (case amount of
        None \<Rightarrow> (None, t)
      | Some a \<Rightarrow>
          (case txn_SubBalance from a (state t) of
             Inl err \<Rightarrow> (Some (if err = ErrNotEnoughFunds then ErrInsufficientBalance else err), t)
           | Inr s \<Rightarrow> (None, t\<lparr>state := txn_AddBalance to a s\<rparr>)))"

definition GetStorage :: "transition \<Rightarrow> address \<Rightarrow> hash \<Rightarrow> hash" where
  "GetStorage t a k = txn_GetState (state t) a k"

definition SetStorage :: "address \<Rightarrow> hash \<Rightarrow> hash \<Rightarrow> transition \<Rightarrow> transition" where
  "SetStorage a k v t = t\<lparr>state := txn_SetState a k v (state t)\<rparr>"

definition EmitLog :: "address \<Rightarrow> hash list \<Rightarrow> bytes \<Rightarrow> transition \<Rightarrow> transition" where
  "EmitLog a topics data t = t\<lparr>state := txn_EmitLog a topics data (state t)\<rparr>"

definition GetCode :: "transition \<Rightarrow> address \<Rightarrow> bytes" where
  "GetCode t a = txn_GetCode (state t) a"

definition GetBalance :: "transition \<Rightarrow> address \<Rightarrow> int" where
  "GetBalance t a = txn_GetBalance (state t) a"

definition GetTxContext :: "transition \<Rightarrow> tx_context" where
  "GetTxContext t = ctx t"

text \<open>Capturing and restoring the access list of a frame: \<open>accessListSnap\<close> is a copy
  when EIP-2929 is active and the list exists, and nil otherwise; a nil snapshot restores
  nothing. The pointer \<open>t.ctx.AccessList\<close> is stable, so it is non-nil whenever its
  snapshot is.\<close>

definition captureAccessList :: "transition \<Rightarrow> access_list option" where
  "captureAccessList t =
     (if EIP2929 (config t) then map_option Copy (ctx_AccessList (ctx t)) else None)"

definition restoreAccessList :: "access_list option \<Rightarrow> transition \<Rightarrow> transition" where
  "restoreAccessList accessListSnap t =
     (case accessListSnap of
        None \<Rightarrow> t
      | Some snap \<Rightarrow>
          t\<lparr>ctx := (ctx t)\<lparr>ctx_AccessList :=
               map_option (\<lambda>al. RevertTo al snap) (ctx_AccessList (ctx t))\<rparr>\<rparr>)"

text \<open>\<open>Transition.applyCall\<close>. The tracer hooks have no effect on the state and are
  left out.\<close>

definition applyCall :: "env \<Rightarrow> contract \<Rightarrow> call_type \<Rightarrow> transition \<Rightarrow> exec_result \<times> transition" where
  "applyCall e c callType t =
     (if c_Depth c > 1024 + 1 then (failure (c_Gas c) ErrDepth, t)
      else
        let (snapshot, s1) = txn_Snapshot (state t);
            t1 = t\<lparr>state := s1\<rparr>;
            accessListSnap = captureAccessList t1;
            t2 = t1\<lparr>state := touchAccount e (c_Address c) (state t1)\<rparr>
        in
          case (if callType = Call then Transfer (c_Caller c) (c_Address c) (c_Value c) t2
                else (None, t2)) of
            (Some err, t3) \<Rightarrow>
              (case txn_RevertToSnapshot snapshot (state t3) of
                 Inl revertErr \<Rightarrow> (failure (c_Gas c) revertErr, t3)
               | Inr s \<Rightarrow> (failure (c_Gas c) err, restoreAccessList accessListSnap (t3\<lparr>state := s\<rparr>)))
          | (None, t3) \<Rightarrow>
              (let (result, t4) = run e c t3 in
               if Failed result then
                 (case txn_RevertToSnapshot snapshot (state t4) of
                    Inl err \<Rightarrow> (failure (c_Gas c) err, t4)
                  | Inr s \<Rightarrow> (result, restoreAccessList accessListSnap (t4\<lparr>state := s\<rparr>)))
               else (result, t4)))"

definition hasCodeOrNonce :: "env \<Rightarrow> transition \<Rightarrow> address \<Rightarrow> bool" where
  "hasCodeOrNonce e t addr =
     (if txn_GetNonce (state t) addr \<noteq> 0 then True
      else let codeHash = getCodeHash e (state t) addr
           in codeHash \<noteq> EmptyCodeHash e \<and> codeHash \<noteq> 0)"

text \<open>The deployment allow-list check of \<open>applyCreate\<close>: the allow list takes
  precedence over the block list.\<close>

definition deploymentDenied :: "env \<Rightarrow> contract \<Rightarrow> transition \<Rightarrow> bool" where
  "deploymentDenied e c t =
     (case deploymentAllowList e of
        Some getRole \<Rightarrow> \<not> Enabled (getRole t (c_Caller c))
      | None \<Rightarrow>
          (case deploymentBlockList e of
             Some getRole \<Rightarrow> isEnabledRole (getRole t (c_Caller c))
           | None \<Rightarrow> False))"

text \<open>The part of \<open>applyCreate\<close> after the runtime has returned.\<close>

definition applyCreate_finish ::
  "contract \<Rightarrow> nat \<Rightarrow> access_list option \<Rightarrow> exec_result \<times> transition \<Rightarrow> exec_result \<times> transition" where
  "applyCreate_finish c snapshot accessListSnap rt =
     (let (result, t) = rt in
      if Failed result then
        (case txn_RevertToSnapshot snapshot (state t) of
           Inl err \<Rightarrow> (failure 0 err, t)
         | Inr s \<Rightarrow> (result, restoreAccessList accessListSnap (t\<lparr>state := s\<rparr>)))
      else if EIP158 (config t) \<and> length (ReturnValue result) > SpuriousDragonMaxCodeSize then
        (case txn_RevertToSnapshot snapshot (state t) of
           Inl err \<Rightarrow> (failure 0 err, t)
         | Inr s \<Rightarrow> (failure 0 ErrMaxCodeSizeExceeded,
                      restoreAccessList accessListSnap (t\<lparr>state := s\<rparr>)))
      else
        let gasCost = (of_nat (length (ReturnValue result)) :: u64) * 200 in
        if GasLeft result < gasCost then
          (let result1 = result\<lparr>Err := Some ErrCodeStoreOutOfGas, ReturnValue := []\<rparr> in
           if Homestead (config t) then
             (case txn_RevertToSnapshot snapshot (state t) of
                Inl err \<Rightarrow> (failure 0 err, t)
              | Inr s \<Rightarrow> (result1\<lparr>GasLeft := 0\<rparr>,
                           restoreAccessList accessListSnap (t\<lparr>state := s\<rparr>)))
           else (result1, t))
        else
          (result\<lparr>GasLeft := GasLeft result - gasCost, r_Address := c_Address c\<rparr>,
           t\<lparr>state := txn_SetCode (c_Address c) (ReturnValue result) (state t)\<rparr>))"

text \<open>\<open>Transition.applyCreate\<close>.\<close>

definition applyCreate :: "env \<Rightarrow> contract \<Rightarrow> transition \<Rightarrow> exec_result \<times> transition" where
  "applyCreate e c t =
     (let gasLimit = c_Gas c in
      if c_Depth c > 1024 + 1 then (failure gasLimit ErrDepth, t)
      else
        case txn_IncrNonce (c_Caller c) (state t) of
          Inl err \<Rightarrow> (failure 0 err, t)
        | Inr s0 \<Rightarrow>
            let t0 = t\<lparr>state := s0\<rparr> in
            if hasCodeOrNonce e t0 (c_Address c) then (failure 0 ErrContractAddressCollision, t0)
            else
              let (snapshot, s1) = txn_Snapshot (state t0);
                  t1 = t0\<lparr>state := s1\<rparr>;
                  accessListSnap = captureAccessList t1
              in
                if EIP3860 (config t1) \<and> c_Depth c > 1 \<and> length (c_Code c) > TxPoolMaxInitCodeSize
                then (failure 0 ErrOutOfGas, restoreAccessList accessListSnap t1)
                else
                  (case (if EIP158 (config t1) then
                           (let s2 = createAccount e (c_Address c) (state t1) in
                            (case txn_IncrNonce (c_Address c) s2 of
                               Inl err \<Rightarrow> (Some err, t1\<lparr>state := s2\<rparr>)
                             | Inr s3 \<Rightarrow> (None, t1\<lparr>state := s3\<rparr>)))
                         else (None, t1)) of
                     (Some err, t2) \<Rightarrow> (failure 0 err, t2)
                   | (None, t2) \<Rightarrow>
                       (case Transfer (c_Caller c) (c_Address c) (c_Value c) t2 of
                          (Some err, t3) \<Rightarrow> (failure gasLimit err, t3)
                        | (None, t3) \<Rightarrow>
                            if deploymentDenied e c t3 then (failure 0 ErrNotAuth, t3)
                            else applyCreate_finish c snapshot accessListSnap (run e c t3))))"

definition Callx :: "env \<Rightarrow> contract \<Rightarrow> transition \<Rightarrow> exec_result \<times> transition" where
  "Callx e c t = (if c_Type c = Create then applyCreate e c t else applyCall e c (c_Type c) t)"

section \<open>Registry keys (package chain)\<close>

definition DefaultBurnedAddress :: address where
  "DefaultBurnedAddress = 0x0000000000000000000000000000000000000666"

definition DefaultDonationAddress :: address where
  "DefaultDonationAddress = DefaultBurnedAddress"

definition DefaultDonationPercent :: u64 where
  "DefaultDonationPercent = 15"

definition u256Slot :: "u64 \<Rightarrow> hash" where
  "u256Slot n = ucast n"

definition EngineRegistrySlotKeyPaused :: hash where
  "EngineRegistrySlotKeyPaused = u256Slot 6"

definition EngineRegistrySlotKeyDonationAddress :: hash where
  "EngineRegistrySlotKeyDonationAddress = u256Slot 8"

definition EngineRegistrySlotKeyDonationPercent :: hash where
  "EngineRegistrySlotKeyDonationPercent = u256Slot 9"

definition EngineRegistrySlotKeyAuthorizedEngine :: "crypto \<Rightarrow> address \<Rightarrow> hash" where
  "EngineRegistrySlotKeyAuthorizedEngine cr engine =
     BytesToHash (Keccak256 cr (be_bytes 32 (ucast engine :: hash) @ be_bytes 32 (u256Slot 2)))"

section \<open>The engine-execute precompile (package precompiled)\<close>

definition str_bytes :: "string \<Rightarrow> bytes" where
  "str_bytes s = map (\<lambda>c. of_nat (of_char c)) s"

text \<open>\<open>copy(b[:n], src)\<close> into a zeroed buffer.\<close>

definition copy_fit :: "nat \<Rightarrow> bytes \<Rightarrow> bytes" where
  "copy_fit n src = take n src @ replicate (n - length src) 0"

definition slotNextPid :: "crypto \<Rightarrow> bytes" where
  "slotNextPid cr = Keccak256 cr (str_bytes ''XGR:ENGINE:NEXT_PID'')"

definition kNext :: "crypto \<Rightarrow> address \<Rightarrow> hash" where
  "kNext cr a = BytesToHash (Keccak256 cr (copy_fit 32 (slotNextPid cr) @ be_bytes 20 a))"

definition authorizeEngineCaller :: "env \<Rightarrow> transition \<Rightarrow> address \<Rightarrow> address \<times> bool" where
  "authorizeEngineCaller e host caller =
     (let reg = EngineRegistryAddress (chain e) in
      if reg = 0 then
        (if BootstrapEngineEOA (chain e) \<noteq> 0 \<and> caller = BootstrapEngineEOA (chain e)
         then (caller, True) else (0, False))
      else if length (GetCode host reg) = 0 then
        (if BootstrapEngineEOA (chain e) \<noteq> 0 \<and> caller = BootstrapEngineEOA (chain e)
         then (caller, True) else (0, False))
      else if GetStorage host reg EngineRegistrySlotKeyPaused \<noteq> 0 then (0, False)
      else if GetStorage host reg (EngineRegistrySlotKeyAuthorizedEngine (hashing e) caller) = 0
        then (0, False)
      else (caller, True))"

definition sloadU256 :: "env \<Rightarrow> transition \<Rightarrow> hash \<Rightarrow> int option" where
  "sloadU256 e h k =
     (let v = GetStorage h (EngineExecutePrecompile (addrs e)) k in
      if v = 0 then None else Some (uint v))"

text \<open>\<open>sstoreU256\<close> fills a 32-byte buffer with the absolute value; \<open>FillBytes\<close>
  panics when the value does not fit, which is the error \<open>ErrBufferTooSmall\<close> here.\<close>

definition sstoreU256 :: "env \<Rightarrow> hash \<Rightarrow> int option \<Rightarrow> transition \<Rightarrow> error + transition" where
  "sstoreU256 e k v h =
     (case v of
        None \<Rightarrow> Inr (SetStorage (EngineExecutePrecompile (addrs e)) k 0 h)
      | Some x \<Rightarrow>
          if \<bar>x\<bar> < 2 ^ 256
          then Inr (SetStorage (EngineExecutePrecompile (addrs e)) k (of_int \<bar>x\<bar>) h)
          else Inl ErrBufferTooSmall)"


text \<open>The counter read with its first-session default: \<open>nil\<close> or zero is 1.\<close>

definition nextOr1 :: "int option \<Rightarrow> int" where
  "nextOr1 next = (case next of None \<Rightarrow> 1 | Some n \<Rightarrow> if n = 0 then 1 else n)"


definition engineOverheadGas :: u64 where
  "engineOverheadGas = 0"

definition calldataCostUnits :: "bytes \<Rightarrow> u64" where
  "calldataCostUnits b = foldl (\<lambda>c x. if x = 0 then c + 4 else c + 16) 0 b"

definition logCostUnits :: "nat \<Rightarrow> nat \<Rightarrow> u64" where
  "logCostUnits topics dataLen = 375 + 375 * of_nat topics + 8 * of_nat dataLen"

definition callOverheadUnits :: "address \<Rightarrow> u64 \<Rightarrow> nat \<Rightarrow> u64" where
  "callOverheadUnits to gasLimit dataLen =
     (if to = 0 \<or> gasLimit = 0 then 0
      else let words = (of_nat dataLen + 31) div 32 in 700 + 2600 + 3 * words)"

definition pad32 :: "nat \<Rightarrow> nat" where
  "pad32 n = ((n + 31) div 32) * 32"

definition dynLen :: "nat \<Rightarrow> nat" where
  "dynLen n = 32 + pad32 n"

definition bLen :: "string \<Rightarrow> nat" where
  "bLen s = length (str_bytes s)"

definition nArgsMeta :: nat where
  "nArgsMeta = 13"

definition nArgsExtras :: nat where
  "nArgsExtras = 2"

definition calcEngineMetaLen :: "inGrant \<Rightarrow> inMeta \<Rightarrow> nat" where
  "calcEngineMetaLen g m =
     (let head = 32 * nArgsMeta;
          tail = 0 + dynLen (bLen (g_OstcId g)) + dynLen (bLen (m_StepId m)) +
                 dynLen (length (m_Payload m)) + dynLen (length (m_ApiSaves m)) +
                 dynLen (length (m_ContractSaves m))
      in head + tail)"

definition calcEngineExtrasLen :: "inMeta \<Rightarrow> nat" where
  "calcEngineExtrasLen m = 32 * nArgsExtras + dynLen (length (m_Extras m))"

definition nz :: "int option \<Rightarrow> int" where
  "nz b = (case b of Some v \<Rightarrow> v | None \<Rightarrow> 0)"

record feeCalc =
  fc_calldata :: u64
  fc_metaLen :: nat
  fc_extrasLen :: nat
  fc_callOverhead :: u64
  fc_execLimit :: u64
  fc_validationGas :: u64

definition calcFee :: "bytes \<Rightarrow> inGrant \<Rightarrow> inCall \<Rightarrow> inMeta \<Rightarrow> feeCalc" where
  "calcFee input grant call meta =
     (let exec = (if call_To call \<noteq> 0 \<and> call_GasLimit call > 0 then call_GasLimit call else 0)
      in \<lparr>fc_calldata = calldataCostUnits input,
          fc_metaLen = calcEngineMetaLen grant meta,
          fc_extrasLen = calcEngineExtrasLen meta,
          fc_callOverhead = callOverheadUnits (call_To call) (call_GasLimit call) (length (call_Data call)),
          fc_execLimit = exec,
          fc_validationGas = call_ValidationGas call\<rparr>)"

definition logUnits :: "feeCalc \<Rightarrow> u64" where
  "logUnits f = logCostUnits 1 (fc_metaLen f) + logCostUnits 1 (fc_extrasLen f)"

definition precompileGasUnits :: "feeCalc \<Rightarrow> u64" where
  "precompileGasUnits f =
     fc_validationGas f + logUnits f + fc_callOverhead f + fc_execLimit f + engineOverheadGas"

definition evmTxUnits :: "feeCalc \<Rightarrow> u64" where
  "evmTxUnits f =
     21000 + fc_calldata f + logUnits f + fc_callOverhead f + fc_execLimit f + engineOverheadGas"

definition totalTxUnits :: "feeCalc \<Rightarrow> u64" where
  "totalTxUnits f = evmTxUnits f + fc_validationGas f"

definition minMalformedExecuteGas :: u64 where
  "minMalformedExecuteGas = 21000"

definition engineExecute_gas :: "abi \<Rightarrow> bytes \<Rightarrow> u64" where
  "engineExecute_gas a input =
     (if length input < 4 then 0
      else if take 4 input \<noteq> id_ENGINE_EXECUTE a then 0
      else case decode_ENGINE_EXECUTE a (drop 4 input) of
             None \<Rightarrow> minMalformedExecuteGas
           | Some (grant, call, meta) \<Rightarrow> precompileGasUnits (calcFee input grant call meta))"

definition billGrants ::
  "address \<Rightarrow> address \<Rightarrow> u64 \<Rightarrow> int option \<Rightarrow> transition \<Rightarrow> (error + int) \<times> transition" where
  "billGrants payer engine seconds perYearWei host =
     (if seconds = 0 then (Inr 0, host)
      else
        let rate = nz perYearWei;
            fee = (rate * uint seconds + (31536000 - 1)) div 31536000
        in if fee = 0 then (Inr fee, host)
           else case Transfer payer engine (Some fee) host of
                  (Some err, host1) \<Rightarrow> (Inl err, host1)
                | (None, host1) \<Rightarrow> (Inr fee, host1))"

definition logGrantFeeCharged ::
  "env \<Rightarrow> address \<Rightarrow> address \<Rightarrow> u64 \<Rightarrow> int option \<Rightarrow> int option \<Rightarrow> transition \<Rightarrow> transition" where
  "logGrantFeeCharged e payer engine seconds perYearWei fee host =
     (case encode_GrantFeeCharged (codec e) payer engine (uint seconds) (nz perYearWei) (nz fee) of
        None \<Rightarrow> host
      | Some payload \<Rightarrow> EmitLog (EngineExecutePrecompile (addrs e)) [] payload host)"

text \<open>
  \<open>engineExecute.run\<close> on the selector \<open>ENGINE_EXECUTE\<close>, in the order of the source.
  The host is mutated in place, so every step returns the host it leaves behind,
  also when it returns an error. First the authorisation of the caller and the
  optional grant billing with its log.
\<close>

definition exec_authorize ::
  "env \<Rightarrow> inGrant \<Rightarrow> inCall \<Rightarrow> address \<Rightarrow> transition \<Rightarrow> (error + address) \<times> transition" where
  "exec_authorize e grant call caller host =
     (let (engine, ok) = authorizeEngineCaller e host caller in
      if \<not> ok then (Inl ErrInvalidInputData, host)
      else
        let user = g_From grant in
        if call_GrantFeeSeconds call > 0 then
          (case billGrants user engine (call_GrantFeeSeconds call) (call_GrantFeePerYearWei call) host of
             (Inl err, host1) \<Rightarrow> (Inl err, host1)
           | (Inr fee, host1) \<Rightarrow>
               (Inr engine,
                logGrantFeeCharged e user engine (call_GrantFeeSeconds call)
                  (call_GrantFeePerYearWei call) (Some fee) host1))
        else (Inr engine, host))"

text \<open>The monotone guard on the session identifier, the immediate store of the new
  counter for a new root, and the deadline guard.\<close>

definition exec_session :: "env \<Rightarrow> inGrant \<Rightarrow> inCall \<Rightarrow> transition \<Rightarrow> error option \<times> transition" where
  "exec_session e grant call host =
     (case g_SessionId grant of
        None \<Rightarrow> (Some ErrInvalidInputData, host)
      | Some sessionId \<Rightarrow>
          if sessionId < 0 then (Some ErrInvalidInputData, host)
          else
            let curNext = nextOr1 (sloadU256 e host (kNext (hashing e) (g_From grant))) in
            if sessionId > curNext then (Some ErrInvalidInputData, host)
            else
              let txTime = ctx_Timestamp (GetTxContext host) in
              (case (if sessionId = curNext
                     then sstoreU256 e (kNext (hashing e) (g_From grant)) (Some (sessionId + 1)) host
                     else Inr host) of
                 Inl err \<Rightarrow> (Some err, host)
               | Inr host1 \<Rightarrow>
                   if call_Deadline call \<noteq> 0 \<and> txTime > call_Deadline call
                   then (Some ErrUnauthorizedCaller, host1)
                   else (None, host1)))"

text \<open>The price and fee guards: they read the host and return the price paid per gas
  and the call with its fee cap defaulted.\<close>

definition exec_fees :: "inCall \<Rightarrow> transition \<Rightarrow> error + (int \<times> inCall)" where
  "exec_fees call host =
     (let txCtx = GetTxContext host;
          paidWeiPerGas = uint (ctx_GasPrice txCtx)
      in
        if paidWeiPerGas \<le> 0 then Inl ErrInvalidInputData
        else
          case (case ctx_BaseFee txCtx of
                  Some bf \<Rightarrow>
                    (if call_MaxFeePerGas call = None \<or> call_MaxFeePerGas call = Some 0
                     then Inr (call\<lparr>call_MaxFeePerGas := Some paidWeiPerGas\<rparr>)
                     else if nz (call_MaxFeePerGas call) < bf then Inl ErrInvalidInputData
                     else Inr call)
                | None \<Rightarrow> Inr call) of
            Inl err \<Rightarrow> Inl err
          | Inr call1 \<Rightarrow>
              if call_MaxFeePerGas call1 = None \<or> nz (call_MaxFeePerGas call1) \<le> 0
              then Inl ErrInvalidInputData
              else if call_To call1 = 0 \<and> call_GasLimit call1 \<noteq> 0 then Inl ErrInvalidInputData
              else Inr (paidWeiPerGas, call1))"

text \<open>The conservative preflight amount.\<close>

definition worstTotal :: "feeCalc \<Rightarrow> inCall \<Rightarrow> int \<Rightarrow> int" where
  "worstTotal fc call effectiveWeiPerGas =
     (let worstWei = uint (totalTxUnits fc) * effectiveWeiPerGas;
          worstTotal0 = worstWei + nz (call_ValueWei call)
      in
        if call_GrantFeeSeconds call > 0 then
          (let num = nz (call_GrantFeePerYearWei call) * uint (call_GrantFeeSeconds call);
               den = 31536000;
               grantFeeWei = (num + (den - 1)) div den
           in worstTotal0 + grantFeeWei)
        else worstTotal0)"

text \<open>Everything before the inner CALL.\<close>

definition exec_pre ::
  "env \<Rightarrow> feeCalc \<Rightarrow> inGrant \<Rightarrow> inCall \<Rightarrow> address \<Rightarrow> transition \<Rightarrow>
   (error + (address \<times> int \<times> inCall)) \<times> transition" where
  "exec_pre e fc grant call caller host =
     (case exec_authorize e grant call caller host of
        (Inl err, host1) \<Rightarrow> (Inl err, host1)
      | (Inr engine, host1) \<Rightarrow>
          (case exec_session e grant call host1 of
             (Some err, host2) \<Rightarrow> (Inl err, host2)
           | (None, host2) \<Rightarrow>
               (case exec_fees call host2 of
                  Inl err \<Rightarrow> (Inl err, host2)
                | Inr (paidWeiPerGas, call1) \<Rightarrow>
                    if GetBalance host2 (g_From grant) < worstTotal fc call1 paidWeiPerGas
                    then (Inl ErrNotEnoughFunds, host2)
                    else (Inr (engine, paidWeiPerGas, call1), host2))))"

text \<open>The inner CALL: only with a target and a gas limit; it goes through the host's
  \<open>Callx\<close>.\<close>

definition exec_inner :: "env \<Rightarrow> inGrant \<Rightarrow> inCall \<Rightarrow> transition \<Rightarrow> (u64 \<times> bool) \<times> transition" where
  "exec_inner e grant call host =
     (let user = g_From grant in
      if call_GasLimit call > 0 \<and> call_To call \<noteq> 0 then
        (let code = GetCode host (call_To call);
             contract = NewContractCall 1 user user (call_To call) (Some (nz (call_ValueWei call)))
                          (call_GasLimit call) code (call_Data call);
             (res, host1) = Callx e contract host
         in ((GasUsed res, Succeeded res), host1))
      else ((0, False), host))"

text \<open>The refund to the engine account, the two events and the output.\<close>

definition exec_settle ::
  "env \<Rightarrow> feeCalc \<Rightarrow> inGrant \<Rightarrow> inCall \<Rightarrow> inMeta \<Rightarrow> address \<Rightarrow> int \<Rightarrow> u64 \<times> bool \<Rightarrow> transition \<Rightarrow>
   (error + bytes) \<times> transition" where
  "exec_settle e fc grant call meta engine effectiveWeiPerGas r host =
     (let (execResGasUsed, success) = r;
          user = g_From grant;
          metaData = encode_EngineMeta (codec e) (g_SessionId grant) (m_Iteration meta)
                       (g_XRC729 grant) (g_OstcId grant) (g_OstcHash grant) (m_StepId meta)
                       (m_RuleContract meta) (m_RuleHash meta) (call_To call) success
                       (m_Payload meta) (m_ApiSaves meta) (m_ContractSaves meta);
          extrasData = encode_EngineExtras (codec e) (uint execResGasUsed) (m_Extras meta);
          evmUnits = evmTxUnits fc;
          totalUnits = totalTxUnits fc;
          evmFeeRefund = uint evmUnits * effectiveWeiPerGas;
          engineFeeWei = uint (fc_validationGas fc) * effectiveWeiPerGas;
          totalPay = evmFeeRefund + engineFeeWei
      in
        case (if totalPay > 0 then Transfer user engine (Some totalPay) host else (None, host)) of
          (Some err, host1) \<Rightarrow> (Inl err, host1)
        | (None, host1) \<Rightarrow>
            (let host2 = EmitLog (EngineExecutePrecompile (addrs e))
                           [BytesToHash (engineMetaEvent_ID (codec e))] metaData host1;
                 host3 = EmitLog (EngineExecutePrecompile (addrs e))
                           [BytesToHash (engineExtrasEvent_ID (codec e))] extrasData host2;
                 out = encode_result (codec e) success totalUnits evmFeeRefund engineFeeWei
             in (Inr out, host3)))"

definition engineExecute_exec ::
  "env \<Rightarrow> bytes \<Rightarrow> inGrant \<Rightarrow> inCall \<Rightarrow> inMeta \<Rightarrow> address \<Rightarrow> transition \<Rightarrow> (error + bytes) \<times> transition" where
  "engineExecute_exec e input grant call meta caller host =
     (let fc = calcFee input grant call meta in
      case exec_pre e fc grant call caller host of
        (Inl err, host1) \<Rightarrow> (Inl err, host1)
      | (Inr (engine, paidWeiPerGas, call1), host1) \<Rightarrow>
          (let (r, host2) = exec_inner e grant call1 host1
           in exec_settle e fc grant call1 meta engine paidWeiPerGas r host2))"




text \<open>The stored counter of a user, the claim's \<open>curNext\<close> (the stored counter, at
  least 1) and the outcome of the deadline guard, for stating the session properties.\<close>


definition storedNext :: "env \<Rightarrow> transition \<Rightarrow> address \<Rightarrow> hash" where
  "storedNext e host user =
     GetStorage host (EngineExecutePrecompile (addrs e)) (kNext (hashing e) user)"

definition curNext :: "env \<Rightarrow> transition \<Rightarrow> address \<Rightarrow> int" where
  "curNext e host user = max 1 (uint (storedNext e host user))"


text \<open>The log buffer of a host and the logs the precompile emits, for stating the event
  properties.\<close>


definition logsOf :: "transition \<Rightarrow> log list" where
  "logsOf h = logs (objs (state h))"

definition precompileLog :: "env \<Rightarrow> hash list \<Rightarrow> bytes \<Rightarrow> log" where
  "precompileLog e topics data =
     \<lparr>l_Address = EngineExecutePrecompile (addrs e), l_Topics = topics, l_Data = data,
      l_BlockNumber = 0, l_TxHash = 0\<rparr>"

definition grantFeeLogs :: "env \<Rightarrow> inGrant \<Rightarrow> inCall \<Rightarrow> address \<Rightarrow> log list" where
  "grantFeeLogs e grant call engine =
     (if call_GrantFeeSeconds call > 0 then
        (case encode_GrantFeeCharged (codec e) (g_From grant) engine
                (uint (call_GrantFeeSeconds call)) (nz (call_GrantFeePerYearWei call))
                ((nz (call_GrantFeePerYearWei call) * uint (call_GrantFeeSeconds call)
                   + (31536000 - 1)) div 31536000) of
           None \<Rightarrow> []
         | Some payload \<Rightarrow> [precompileLog e [] payload])
      else [])"

definition engineMetaLog :: "env \<Rightarrow> inGrant \<Rightarrow> inCall \<Rightarrow> inMeta \<Rightarrow> bool \<Rightarrow> log" where
  "engineMetaLog e grant call meta success =
     precompileLog e [BytesToHash (engineMetaEvent_ID (codec e))]
       (encode_EngineMeta (codec e) (g_SessionId grant) (m_Iteration meta)
          (g_XRC729 grant) (g_OstcId grant) (g_OstcHash grant) (m_StepId meta)
          (m_RuleContract meta) (m_RuleHash meta) (call_To call) success
          (m_Payload meta) (m_ApiSaves meta) (m_ContractSaves meta))"

definition engineExtrasLog :: "env \<Rightarrow> inMeta \<Rightarrow> u64 \<Rightarrow> log" where
  "engineExtrasLog e meta gasUsed =
     precompileLog e [BytesToHash (engineExtrasEvent_ID (codec e))]
       (encode_EngineExtras (codec e) (uint gasUsed) (m_Extras meta))"

section \<open>The transition controller (package state)\<close>

definition TxGas :: u64 where
  "TxGas = 21000"

definition TxGasContractCreation :: u64 where
  "TxGasContractCreation = 53000"

definition TxAccessListAddressGas :: u64 where
  "TxAccessListAddressGas = 2400"

definition TxAccessListStorageKeyGas :: u64 where
  "TxAccessListStorageKeyGas = 1900"

definition MaxUint64 :: u64 where
  "MaxUint64 = - 1"

text \<open>\<open>IsContractCreation\<close> of package types: a transaction without recipient.\<close>

definition IsContractCreation :: "transaction \<Rightarrow> bool" where
  "IsContractCreation msg = (tx_To msg = None)"

text \<open>The two counting loops of \<open>TransactionGasCost\<close>.\<close>

definition countZeros :: "bytes \<Rightarrow> u64" where
  "countZeros payload = foldl (\<lambda>zeros b. if b = 0 then zeros + 1 else zeros) 0 payload"

definition countAccessList :: "access_tuple list \<Rightarrow> u64 \<times> u64" where
  "countAccessList al =
     foldl (\<lambda>(addrCount, slotCount) tuple.
              (addrCount + 1, slotCount + of_nat (length (at_StorageKeys tuple)))) (0, 0) al"

text \<open>\<open>TransactionGasCost\<close>, in its four steps: the base cost, the payload bytes, the
  words of init code and the access list.\<close>

definition payloadCost :: "u64 \<Rightarrow> bool \<Rightarrow> bytes \<Rightarrow> error + u64" where
  "payloadCost cost isIstanbul payload =
     (if length payload > 0 then
        (let zeros = countZeros payload;
             nonZeros = of_nat (length payload) - zeros;
             nonZeroCost = (if isIstanbul then 16 else 68)
         in if (MaxUint64 - cost) div nonZeroCost < nonZeros then Inl ErrIntrinsicGasOverflow
            else
              let cost1 = cost + nonZeros * nonZeroCost in
              if (MaxUint64 - cost1) div 4 < zeros then Inl ErrIntrinsicGasOverflow
              else Inr (cost1 + zeros * 4))
      else Inr cost)"

definition initCodeCost :: "u64 \<Rightarrow> bool \<Rightarrow> bytes \<Rightarrow> error + u64" where
  "initCodeCost cost charged payload =
     (if charged then
        (let words = (of_nat (length payload) + 31) div 32 in
         if (MaxUint64 - cost) div 2 < words then Inl ErrIntrinsicGasOverflow
         else Inr (cost + words * 2))
      else Inr cost)"

definition accessListCost :: "u64 \<Rightarrow> bool \<Rightarrow> access_tuple list \<Rightarrow> u64" where
  "accessListCost cost charged al =
     (if charged then
        (let (addrCount, slotCount) = countAccessList al
         in cost + (addrCount * TxAccessListAddressGas + slotCount * TxAccessListStorageKeyGas))
      else cost)"

definition TransactionGasCost :: "transaction \<Rightarrow> bool \<Rightarrow> bool \<Rightarrow> bool \<Rightarrow> bool \<Rightarrow> error + u64" where
  "TransactionGasCost msg isHomestead isIstanbul isEIP3860 isEIP2930 =
     (let cost0 = (if IsContractCreation msg \<and> isHomestead then TxGasContractCreation else TxGas);
          payload = tx_Input msg
      in
        case payloadCost cost0 isIstanbul payload of
          Inl err \<Rightarrow> Inl err
        | Inr cost1 \<Rightarrow>
            (case initCodeCost cost1 (IsContractCreation msg \<and> isEIP3860) payload of
               Inl err \<Rightarrow> Inl err
             | Inr cost2 \<Rightarrow>
                 Inr (accessListCost cost2
                        (isEIP2930 \<and> (tx_Type msg = AccessListTx \<or> tx_Type msg = DynamicFeeTx))
                        (tx_AccessList msg))))"

definition subGasPool :: "u64 \<Rightarrow> transition \<Rightarrow> error option \<times> transition" where
  "subGasPool amount t =
     (if gasPool t < amount then (Some ErrBlockLimitReached, t)
      else (None, t\<lparr>gasPool := gasPool t - amount\<rparr>))"

definition addGasPool :: "u64 \<Rightarrow> transition \<Rightarrow> transition" where
  "addGasPool amount t = t\<lparr>gasPool := gasPool t + amount\<rparr>"

definition subGasLimitPrice :: "env \<Rightarrow> transaction \<Rightarrow> transition \<Rightarrow> error option \<times> transition" where
  "subGasLimitPrice e msg t =
     (let upfrontGasCost = getUpfrontGasCost e msg (ctx_BaseFee (ctx t)) in
      case txn_SubBalance (tx_From msg) upfrontGasCost (state t) of
        Inl err \<Rightarrow> (Some (if err = ErrNotEnoughFunds then ErrNotEnoughFundsForGas else err), t)
      | Inr s \<Rightarrow> (None, t\<lparr>state := s\<rparr>))"

definition nonceCheck :: "transaction \<Rightarrow> transition \<Rightarrow> error option" where
  "nonceCheck msg t =
     (let nonce = txn_GetNonce (state t) (tx_From msg) in
      if nonce \<noteq> tx_Nonce msg then Some ErrNonceIncorrect else None)"

definition checkAndProcessTx :: "env \<Rightarrow> transaction \<Rightarrow> transition \<Rightarrow> tx_error option \<times> transition" where
  "checkAndProcessTx e msg t =
     (if tx_Type msg = AccessListTx \<and> \<not> EIP2930 (config t)
        then (Some (TransitionApplicationError ErrTxTypeNotSupported True), t)
      else if tx_Type msg = AccessListTx \<and> \<not> TxHashWithType (config t)
        then (Some (TransitionApplicationError ErrTypedTxNotAllowed True), t)
      else if tx_Type msg \<noteq> DynamicFeeTx \<and> tx_Type msg \<noteq> StateTx \<and> tx_GasPrice msg = None
        then (Some (TransitionApplicationError ErrGasPriceNotSet True), t)
      else if EIP3860 (config t) \<and> IsContractCreation msg
              \<and> length (tx_Input msg) > TxPoolMaxInitCodeSize
        then (Some (TransitionApplicationError ErrMaxInitCodeSizeExceeded True), t)
      else
        case nonceCheck msg t of
          Some err \<Rightarrow> (Some (TransitionApplicationError err True), t)
        | None \<Rightarrow>
            if \<not> ctx_NonPayable (ctx t) then
              (case checkDynamicFees e msg t of
                 Some err \<Rightarrow> (Some (TransitionApplicationError err True), t)
               | None \<Rightarrow>
                   (case subGasLimitPrice e msg t of
                      (Some err, t1) \<Rightarrow> (Some (TransitionApplicationError err True), t1)
                    | (None, t1) \<Rightarrow> (None, t1)))
            else (None, t))"

definition checkAndProcessStateTx :: "env \<Rightarrow> transaction \<Rightarrow> tx_error option" where
  "checkAndProcessStateTx e msg =
     (case tx_GasPrice msg of
        None \<Rightarrow> Some (PlainError ErrNilPointer)
      | Some gasPrice \<Rightarrow>
          if gasPrice \<noteq> 0 then Some (TransitionApplicationError ErrStateTxGasPrice True)
          else if tx_Gas msg \<noteq> StateTransactionGasLimit e
            then Some (TransitionApplicationError ErrStateTxGas True)
          else if tx_From msg \<noteq> SystemCaller (addrs e)
            then Some (TransitionApplicationError ErrStateTxSender True)
          else if tx_To msg = None \<or> tx_To msg = Some 0
            then Some (TransitionApplicationError ErrStateTxTo True)
          else None)"

text \<open>\<open>Transition.apply\<close>, in the order of the source: the consensus gates up to the
  intrinsic gas, which leave the gas for the execution.\<close>

definition apply_gates :: "env \<Rightarrow> transaction \<Rightarrow> transition \<Rightarrow> (tx_error + u64) \<times> transition" where
  "apply_gates e msg t =
     (case (if tx_Type msg = StateTx then (checkAndProcessStateTx e msg, t)
            else checkAndProcessTx e msg t) of
        (Some err, t1) \<Rightarrow> (Inl err, t1)
      | (None, t1) \<Rightarrow>
          (case subGasPool (tx_Gas msg) t1 of
             (Some err, t2) \<Rightarrow> (Inl (GasLimitReachedTransitionApplicationError err), t2)
           | (None, t2) \<Rightarrow>
               (case TransactionGasCost msg (Homestead (config t2)) (Istanbul (config t2))
                       (EIP3860 (config t2)) (EIP2930 (config t2)) of
                  Inl err \<Rightarrow> (Inl (TransitionApplicationError err False), t2)
                | Inr intrinsicGasCost \<Rightarrow>
                    (let gasLeft = tx_Gas msg - intrinsicGasCost in
                     if gasLeft > tx_Gas msg
                     then (Inl (TransitionApplicationError ErrNotEnoughIntrinsicGas False), t2)
                     else (Inr gasLeft, t2)))))"

text \<open>The warm set of the transaction.\<close>

definition warmTuple :: "access_tuple \<Rightarrow> access_list \<Rightarrow> access_list" where
  "warmTuple tuple al =
     foldl (\<lambda>al1 key. snd (AddSlot (at_Address tuple) key al1))
       (snd (AddAddress (at_Address tuple) al)) (at_StorageKeys tuple)"

definition initAccessList :: "env \<Rightarrow> transaction \<Rightarrow> transition \<Rightarrow> access_list option" where
  "initAccessList e msg t =
     (if EIP2929 (config t) then
        (let init = [tx_From msg]
               @ (if IsContractCreation msg
                  then [CreateAddress (hashing e) (tx_From msg) (tx_Nonce msg)]
                  else (case tx_To msg of Some to \<Rightarrow> [to] | None \<Rightarrow> []))
               @ (if EIP3651 (config t) then [ctx_Coinbase (ctx t)] else []);
             al = NewAccessList (addrs e) init
         in if EIP2930 (config t) \<and> length (tx_AccessList msg) > 0
            then Some (foldl (\<lambda>al1 tuple. warmTuple tuple al1) al (tx_AccessList msg))
            else Some al)
      else None)"

definition Create2_tx :: "env \<Rightarrow> address \<Rightarrow> bytes \<Rightarrow> int \<Rightarrow> u64 \<Rightarrow> transition \<Rightarrow> exec_result \<times> transition" where
  "Create2_tx e caller code v gas t =
     (let address = CreateAddress (hashing e) caller (txn_GetNonce (state t) caller);
          contract = NewContractCreation 1 caller caller address (Some v) gas code
      in applyCreate e contract t)"

definition Call2 :: "env \<Rightarrow> address \<Rightarrow> address \<Rightarrow> bytes \<Rightarrow> int \<Rightarrow> u64 \<Rightarrow> transition \<Rightarrow> exec_result \<times> transition" where
  "Call2 e caller to input v gas t =
     (let c = NewContractCall 1 caller caller to (Some v) gas (txn_GetCode (state t) to) input
      in applyCall e c Call t)"

text \<open>The donation configuration: the defaults, overridden from the registry's storage
  when the registry address is set and has code.\<close>

definition donationConfig :: "env \<Rightarrow> transition \<Rightarrow> address \<times> address \<times> u64" where
  "donationConfig e t =
     (let burnedAddr = DefaultBurnedAddress;
          donationAddr = DefaultDonationAddress;
          donationPercent = DefaultDonationPercent;
          reg = EngineRegistryAddress (chain e)
      in
        if reg \<noteq> 0 \<and> length (txn_GetCode (state t) reg) > 0 then
          (let addrSlot = txn_GetState (state t) reg EngineRegistrySlotKeyDonationAddress;
               regAddr = (ucast addrSlot :: address);
               pctSlot = txn_GetState (state t) reg EngineRegistrySlotKeyDonationPercent;
               pct = uint pctSlot;
               donationPercent1 =
                 (if pct \<ge> 0 \<and> pct < 2 ^ 64 \<and> (of_int pct :: u64) \<le> 100
                  then of_int pct else donationPercent)
           in if regAddr = 0 then (burnedAddr, donationAddr, 0)
              else (burnedAddr, regAddr, donationPercent1))
        else (burnedAddr, donationAddr, donationPercent))"

text \<open>The split of the fee: the fixed burn of 1000 Gwei, clamped, then the donation
  and the validator's share.\<close>

definition feeSplit :: "int \<Rightarrow> u64 \<Rightarrow> int \<times> int \<times> int" where
  "feeSplit totalFeeRaw donationPercent =
     (let burned = 1000 * 1000000000;
          (burnedApplied, totalFee) =
            (if totalFeeRaw \<le> burned then (totalFeeRaw, 0) else (burned, totalFeeRaw - burned));
          donation0 = (totalFee * uint donationPercent) div 100;
          donation1 = (if donation0 < 0 then 0 else donation0);
          donation = (if donation1 > totalFee then totalFee else donation1);
          validator0 = totalFee - donation;
          validator = (if validator0 < 0 then 0 else validator0)
      in (burnedApplied, donation, validator))"

text \<open>The settlement of \<open>Transition.apply\<close>: the refund to the sender, the split of the
  fee and its credits, and the gas returned to the pool.\<close>

definition apply_settle ::
  "env \<Rightarrow> transaction \<Rightarrow> int \<Rightarrow> exec_result \<Rightarrow> transition \<Rightarrow> exec_result \<times> transition" where
  "apply_settle e msg gasPrice result0 t =
     (let refund = txn_GetRefund (state t);
          result = updateGasUsed e result0 (tx_Gas msg) refund;
          remaining = uint (GasLeft result) * gasPrice;
          t1 = t\<lparr>state := txn_AddBalance (tx_From msg) remaining (state t)\<rparr>;
          totalFeeRaw = uint (GasUsed result) * gasPrice;
          (burnedAddr, donationAddr, donationPercent) = donationConfig e t1;
          (burnedApplied, donation, validator) = feeSplit totalFeeRaw donationPercent;
          t2 = (if donation > 0 then t1\<lparr>state := txn_AddBalance donationAddr donation (state t1)\<rparr>
                else t1);
          t3 = (if validator > 0
                then t2\<lparr>state := txn_AddBalance (ctx_Coinbase (ctx t2)) validator (state t2)\<rparr>
                else t2);
          t4 = (if burnedApplied > 0
                then t3\<lparr>state := txn_AddBalance burnedAddr burnedApplied (state t3)\<rparr>
                else t3);
          t5 = t4\<lparr>donationFee := Some donation, validatorFee := Some validator,
                  burnedFee := Some burnedApplied\<rparr>
      in (result, addGasPool (GasLeft result) t5))"

definition apply_tx :: "env \<Rightarrow> transaction \<Rightarrow> transition \<Rightarrow> (tx_error + exec_result) \<times> transition" where
  "apply_tx e msg t =
     (case apply_gates e msg t of
        (Inl err, t1) \<Rightarrow> (Inl err, t1)
      | (Inr gasLeft, t1) \<Rightarrow>
          (case ctx_BaseFee (ctx t1) of
             None \<Rightarrow> (Inl (PlainError ErrNilPointer), t1)
           | Some baseFee \<Rightarrow>
               (let gasPrice = getGasPrice e msg (of_int baseFee);
                    v = tx_Value msg;
                    t2 = t1\<lparr>ctx := (ctx t1)\<lparr>ctx_GasPrice := BytesToHash (big_Bytes gasPrice),
                                             ctx_Origin := tx_From msg\<rparr>\<rparr>;
                    t3 = t2\<lparr>ctx := (ctx t2)\<lparr>ctx_AccessList := initAccessList e msg t2\<rparr>\<rparr>
                in
                  if IsContractCreation msg then
                    (let (result, t4) = Create2_tx e (tx_From msg) (tx_Input msg) v gasLeft t3
                     in (case apply_settle e msg gasPrice result t4 of
                           (result1, t5) \<Rightarrow> (Inr result1, t5)))
                  else
                    (case txn_IncrNonce (tx_From msg) (state t3) of
                       Inl err \<Rightarrow> (Inl (PlainError err), t3)
                     | Inr s \<Rightarrow>
                         (case tx_To msg of
                            None \<Rightarrow> (Inl (PlainError ErrNilPointer), t3\<lparr>state := s\<rparr>)
                          | Some to \<Rightarrow>
                              (let (result, t4) = Call2 e (tx_From msg) to (tx_Input msg)
                                                    v gasLeft (t3\<lparr>state := s\<rparr>)
                               in (case apply_settle e msg gasPrice result t4 of
                                     (result1, t5) \<Rightarrow> (Inr result1, t5))))))))"

text \<open>\<open>Transition.Apply\<close>: a consensus error reverts the journal to the snapshot taken
  before; the post hook runs in both cases.\<close>

definition Apply :: "env \<Rightarrow> transaction \<Rightarrow> transition \<Rightarrow> (tx_error + exec_result) \<times> transition" where
  "Apply e msg t =
     (let (s, st1) = txn_Snapshot (state t);
          (result, t1) = apply_tx e msg (t\<lparr>state := st1\<rparr>)
      in
        case (case result of
                Inl err \<Rightarrow>
                  (case txn_RevertToSnapshot s (state t1) of
                     Inl revertErr \<Rightarrow> Inl revertErr
                   | Inr st2 \<Rightarrow> Inr (t1\<lparr>state := st2\<rparr>))
              | Inr r \<Rightarrow> Inr t1) of
          Inl revertErr \<Rightarrow> (Inl (PlainError revertErr), t1)
        | Inr t2 \<Rightarrow>
            (result, (case postHook e of None \<Rightarrow> t2 | Some hook \<Rightarrow> hook t2)))"

definition emptyFrom :: address where
  "emptyFrom = 0"

definition feeSplitAddress :: address where
  "feeSplitAddress = 0x000000000000000000000000000000000000fEE1"

definition Keccak256Hash :: "crypto \<Rightarrow> bytes \<Rightarrow> bytes" where
  "Keccak256Hash cr data = Keccak256 cr data"

text \<open>The synthetic log of \<open>Transition.Write\<close>.\<close>

definition feeSplitLog :: "env \<Rightarrow> transaction \<Rightarrow> transition \<Rightarrow> int \<Rightarrow> int \<Rightarrow> int \<Rightarrow> log" where
  "feeSplitLog e txn t donation validator burned =
     (let topics = [BytesToHash (Keccak256Hash (hashing e)
                       (str_bytes ''XGRFeeSplit(uint256,uint256,uint256)''))];
          data = LeftPadBytes (big_Bytes donation) 32
                 @ (LeftPadBytes (big_Bytes validator) 32 @ LeftPadBytes (big_Bytes burned) 32)
      in \<lparr>l_Address = feeSplitAddress, l_Topics = topics, l_Data = data,
          l_BlockNumber = ctx_Number (ctx t), l_TxHash = tx_Hash txn\<rparr>)"

text \<open>\<open>Transition.Write\<close>. The three fee fields are pointers that \<open>apply\<close> sets; reading
  a nil one would panic.\<close>

definition Write :: "env \<Rightarrow> transaction \<Rightarrow> transition \<Rightarrow> tx_error option \<times> transition" where
  "Write e txn0 t =
     (case (if tx_From txn0 = emptyFrom \<and> tx_Type txn0 \<noteq> StateTx then
              (case sender e txn0 of
                 Inl err \<Rightarrow> Inl (TransitionApplicationError err False)
               | Inr from \<Rightarrow> Inr (txn0\<lparr>tx_From := from\<rparr>))
            else Inr txn0) of
        Inl err \<Rightarrow> (Some err, t)
      | Inr txn \<Rightarrow>
          (let msg = txn in
           case Apply e msg t of
             (Inl err, t1) \<Rightarrow> (Some err, t1)
           | (Inr result, t1) \<Rightarrow>
               (let t2 = t1\<lparr>totalGas := totalGas t1 + GasUsed result\<rparr> in
                case (donationFee t2, validatorFee t2, burnedFee t2) of
                  (Some donation, Some validator, Some burned) \<Rightarrow>
                    (let myLog = feeSplitLog e txn t2 donation validator burned;
                         (logs0, st3) = txnLogs e (state t2);
                         t3 = t2\<lparr>state := st3\<rparr>;
                         logs1 = logs0 @ [myLog];
                         receipt = \<lparr>rc_Status = ReceiptFailed, rc_CumulativeGasUsed = totalGas t3,
                                    rc_TransactionType = tx_Type txn, rc_TxHash = tx_Hash txn,
                                    rc_GasUsed = GasUsed result, rc_ContractAddress = None,
                                    rc_Logs = [], rc_LogsBloom = []\<rparr>
                     in
                       case cleanDeleteObjects e (state t3) of
                         Inl err \<Rightarrow> (Some (PlainError err), t3)
                       | Inr st4 \<Rightarrow>
                           (let t4 = t3\<lparr>state := st4\<rparr>;
                                receipt1 = receipt\<lparr>rc_Status :=
                                             (if Failed result then ReceiptFailed else ReceiptSuccess)\<rparr>;
                                receipt2 = (if tx_To msg = None
                                            then receipt1\<lparr>rc_ContractAddress :=
                                                   Some (CreateAddress (hashing e) (tx_From msg) (tx_Nonce txn))\<rparr>
                                            else receipt1);
                                receipt3 = receipt2\<lparr>rc_Logs := logs1\<rparr>;
                                receipt4 = receipt3\<lparr>rc_LogsBloom := createBloom e (rc_Logs receipt3)\<rparr>
                            in (None, t4\<lparr>receipts := receipts t4 @ [receipt4]\<rparr>)))
                | _ \<Rightarrow> (Some (PlainError ErrNilPointer), t2))))"



text \<open>The fixed burn, for stating the fee split.\<close>

definition burnAmount :: int where
  "burnAmount = 1000 * 1000000000"

text \<open>The credit of an amount to an address.\<close>

definition credit :: "address \<Rightarrow> int \<Rightarrow> address \<Rightarrow> int" where
  "credit to amount a = (if a = to then amount else 0)"

text \<open>The intrinsic gas as the specification words it, over the natural numbers: the
  zero bytes of a payload, the part of the base cost, the payload and the init code,
  and the part of the access list.\<close>

definition zeroBytes :: "bytes \<Rightarrow> nat" where
  "zeroBytes payload = length (filter (\<lambda>b. b = 0) payload)"

definition payloadGas :: "transaction \<Rightarrow> bool \<Rightarrow> bool \<Rightarrow> bool \<Rightarrow> nat" where
  "payloadGas msg isHomestead isIstanbul isEIP3860 =
     (if tx_To msg = None \<and> isHomestead then 53000 else 21000)
     + (length (tx_Input msg) - zeroBytes (tx_Input msg)) * (if isIstanbul then 16 else 68)
     + zeroBytes (tx_Input msg) * 4
     + (if tx_To msg = None \<and> isEIP3860 then ((length (tx_Input msg) + 31) div 32) * 2 else 0)"

definition accessListGas :: "transaction \<Rightarrow> bool \<Rightarrow> nat" where
  "accessListGas msg isEIP2930 =
     (if isEIP2930 \<and> (tx_Type msg = AccessListTx \<or> tx_Type msg = DynamicFeeTx)
      then length (tx_AccessList msg) * 2400
           + sum_list (map (\<lambda>tuple. length (at_StorageKeys tuple)) (tx_AccessList msg)) * 1900
      else 0)"

text \<open>The access list of a transition, and what is warm in it. Without a list
  (\<open>t.ctx.AccessList == nil\<close>) nothing is warm.\<close>

definition accessListOf :: "transition \<Rightarrow> access_list option" where
  "accessListOf t = ctx_AccessList (ctx t)"

definition warmAddress :: "transition \<Rightarrow> address \<Rightarrow> bool" where
  "warmAddress t a = (case accessListOf t of None \<Rightarrow> False | Some al \<Rightarrow> ContainsAddress al a)"

definition warmSlot :: "transition \<Rightarrow> address \<Rightarrow> hash \<Rightarrow> bool" where
  "warmSlot t a k = (case accessListOf t of None \<Rightarrow> False | Some al \<Rightarrow> ContainsSlot al a k)"

text \<open>What the frame lemmas take for granted from the code that is not among the
  sources. The interpreter, run on a frame, leaves in place the snapshots that were on the
  journal's stack when it started (snapshots compose strictly LIFO), does not touch the fork
  configuration, and neither drops nor creates the access-list pointer (it is stable across
  frames); \<open>TouchAccount\<close> and \<open>CreateAccount\<close> take no snapshots and drop none.\<close>

definition runtimeKeepsJournal :: "env \<Rightarrow> bool" where
  "runtimeKeepsJournal e \<longleftrightarrow>
     (\<forall>c t. take (length (snapshots (state t))) (snapshots (state (snd (run e c t))))
              = snapshots (state t)
            \<and> config (snd (run e c t)) = config t
            \<and> ((accessListOf (snd (run e c t)) = None) = (accessListOf t = None)))
     \<and> (\<forall>a s. snapshots (touchAccount e a s) = snapshots s)
     \<and> (\<forall>a s. snapshots (createAccount e a s) = snapshots s)"

text \<open>The interpreter only ever adds to the access list: what is warm when it starts
  on a frame is warm when it returns.\<close>

definition runtimeOnlyWarms :: "env \<Rightarrow> bool" where
  "runtimeOnlyWarms e \<longleftrightarrow>
     (\<forall>c t a k. (warmAddress t a \<longrightarrow> warmAddress (snd (run e c t)) a)
              \<and> (warmSlot t a k \<longrightarrow> warmSlot (snd (run e c t)) a k))"





text \<open>The second transition keeps the journal of the first: the snapshots that were on the
  stack, the fork configuration, and whether there is an access list.\<close>

definition journalKept :: "transition \<Rightarrow> transition \<Rightarrow> bool" where
  "journalKept t t' \<longleftrightarrow>
     take (length (snapshots (state t))) (snapshots (state t')) = snapshots (state t)
     \<and> config t' = config t
     \<and> ((accessListOf t' = None) = (accessListOf t = None))"

section \<open>Concrete instances\<close>

text \<open>Small concrete arguments and a concrete codec on which the theorems below are
  evaluated.\<close>

definition grant0 :: inGrant where
  "grant0 = \<lparr>g_From = 10, g_Engine = 14, g_XRC729 = 0, g_OstcId = ''o1'', g_OstcHash = 0,
     g_ProcessId = None, g_SessionId = Some 1, g_MaxTotalGas = None, g_Expiry = None,
     g_ChainId = None\<rparr>"

definition call0 :: inCall where
  "call0 = \<lparr>call_To = 0, call_Data = [], call_ValueWei = Some 0, call_GasLimit = 0,
     call_ValidationGas = 20000, call_MaxFeePerGas = None, call_Deadline = 0,
     call_GrantFeeSeconds = 0, call_GrantFeePerYearWei = None\<rparr>"

definition meta0 :: inMeta where
  "meta0 = \<lparr>m_Iteration = 0, m_StepId = ''s'', m_RuleContract = 0, m_RuleHash = 0,
     m_Payload = [], m_ApiSaves = [], m_ContractSaves = [], m_Extras = []\<rparr>"

definition abi0 :: abi where
  "abi0 = \<lparr>id_ENGINE_EXECUTE = [1, 0, 0, 0], id_ENGINE_GET_NEXT_PID = [2, 0, 0, 0],
     id_ENGINE_IS_PID_USED = [3, 0, 0, 0], id_BILL_GRANTS_ONLY = [4, 0, 0, 0],
     decode_ENGINE_EXECUTE = (\<lambda>bs. if bs = [] then Some (grant0, call0, meta0) else None),
     decode_ENGINE_GET_NEXT_PID = (\<lambda>bs. None),
     decode_ENGINE_IS_PID_USED = (\<lambda>bs. None),
     decode_BILL_GRANTS_ONLY = (\<lambda>bs. None),
     engineMetaEvent_ID = [1], engineExtrasEvent_ID = [2],
     encode_EngineMeta = (\<lambda>sid it orch oid oh st rc rh ec ok p a c. [if ok then 1 else 0]),
     encode_EngineExtras = (\<lambda>g ex. ex),
     encode_GrantFeeCharged = (\<lambda>p en s r f. Some []),
     encode_result = (\<lambda>ok u r f. [if ok then 1 else 0]),
     encode_uint256 = (\<lambda>v. Some []),
     abiBoolTrue = [1], abiBoolFalse = [0]\<rparr>"

definition okRun :: "contract \<Rightarrow> transition \<Rightarrow> exec_result \<times> transition" where
  "okRun c t = (\<lparr>ReturnValue = [], GasLeft = c_Gas c, GasUsed = 0, Err = None, r_Address = 0\<rparr>, t)"

definition env0 :: env where
  "env0 = \<lparr>run = okRun,
     touchAccount = (\<lambda>a s. s), createAccount = (\<lambda>a s. s), getCodeHash = (\<lambda>s a. 0),
     EmptyCodeHash = 0, deploymentAllowList = None, deploymentBlockList = None,
     hashing = \<lparr>Keccak256 = (\<lambda>bs. bs), CreateAddress = (\<lambda>a n. a + ucast n + 1)\<rparr>,
     chain = \<lparr>EngineRegistryAddress = 0, BootstrapEngineEOA = 14\<rparr>,
     addrs = \<lparr>NativeTransferPrecompile = 0x2020, BLSAggSigsVerificationPrecompile = 0x2030,
       ConsolePrecompile = 0x2040, EngineExecutePrecompile = 0x2050, SystemCaller = 0xFFFE\<rparr>,
     codec = abi0,
     getGasPrice = (\<lambda>msg baseFee. nz (tx_GasPrice msg)),
     checkDynamicFees = (\<lambda>msg t. None),
     getUpfrontGasCost = (\<lambda>msg baseFee. uint (tx_Gas msg) * nz (tx_GasPrice msg)),
     updateGasUsed = (\<lambda>r gas refund. r\<lparr>GasUsed := gas - GasLeft r\<rparr>),
     sender = (\<lambda>msg. Inr 10),
     txnLogs = (\<lambda>s. (logs (objs s), s\<lparr>objs := (objs s)\<lparr>logs := []\<rparr>\<rparr>)),
     cleanDeleteObjects = (\<lambda>s. Inr s),
     createBloom = (\<lambda>ls. []),
     postHook = None,
     StateTransactionGasLimit = 1000000,
     beginTxn = (\<lambda>root h coinbase. Inl ErrNilPointer)\<rparr>"

definition forks0 :: forks where
  "forks0 = \<lparr>Homestead = True, Istanbul = True, EIP155 = True, EIP158 = True, EIP2929 = True,
     EIP2930 = True, EIP3651 = True, EIP3860 = True, London = True, TxHashWithType = True\<rparr>"

definition world0 :: world where
  "world0 = \<lparr>balances = (\<lambda>a. if a = 10 then 1000000000000000000 else 0), nonces = (\<lambda>a. 0),
     codes = (\<lambda>a. []), storage = (\<lambda>a k. 0), logs = [], refund = 0\<rparr>"

definition host0 :: transition where
  "host0 = \<lparr>state = \<lparr>objs = world0, snapshots = []\<rparr>,
     ctx = \<lparr>ctx_GasPrice = 3000000000, ctx_Origin = 14, ctx_Coinbase = 77, ctx_Number = 1,
       ctx_Timestamp = 1000, ctx_BaseFee = Some 7, ctx_GasLimit = 30000000,
       ctx_AccessList = None, ctx_NonPayable = False\<rparr>,
     config = forks0, gasPool = 30000000, receipts = [], totalGas = 0,
     donationFee = None, validatorFee = None, burnedFee = None\<rparr>"

definition call1 :: inCall where
  "call1 = call0\<lparr>call_GrantFeeSeconds := 1, call_GrantFeePerYearWei := Some 31536000\<rparr>"

definition call2 :: inCall where
  "call2 = call0\<lparr>call_ValidationGas := 18446744073709551615\<rparr>"

definition frame1025 :: contract where
  "frame1025 = NewContractCall 1025 10 10 11 (Some 0) 21000 [] []"

definition frame1026 :: contract where
  "frame1026 = NewContractCall 1026 10 10 11 (Some 0) 21000 [] []"


definition tx0 :: transaction where
  "tx0 = \<lparr>tx_Type = LegacyTx, tx_Nonce = 0, tx_GasPrice = Some 2000000000, tx_GasTipCap = None,
     tx_GasFeeCap = None, tx_Gas = 21000, tx_To = Some 11, tx_Value = 1000000000000,
     tx_Input = [], tx_AccessList = [], tx_From = 10, tx_Hash = 99\<rparr>"


definition stateTx0 :: transaction where
  "stateTx0 = tx0\<lparr>tx_Type := StateTx, tx_GasPrice := Some 0, tx_Gas := 1000000,
     tx_From := 0xFFFE, tx_Value := 0, tx_Hash := 97\<rparr>"

definition transferResult :: exec_result where
  "transferResult = \<lparr>ReturnValue = [], GasLeft = 0, GasUsed = 21000, Err = None, r_Address = 0\<rparr>"

definition alTx :: transaction where
  "alTx = \<lparr>tx_Type = AccessListTx, tx_Nonce = 0, tx_GasPrice = Some 2000000000,
     tx_GasTipCap = None, tx_GasFeeCap = None, tx_Gas = 50000, tx_To = Some 11, tx_Value = 0,
     tx_Input = [],
     tx_AccessList = [\<lparr>at_Address = 51, at_StorageKeys = [1, 2]\<rparr>,
                      \<lparr>at_Address = 68, at_StorageKeys = [7]\<rparr>],
     tx_From = 10, tx_Hash = 96\<rparr>"

definition dynTx :: transaction where
  "dynTx = alTx\<lparr>tx_Type := DynamicFeeTx, tx_GasPrice := None, tx_GasTipCap := Some 1,
     tx_GasFeeCap := Some 2000000000\<rparr>"

text \<open>The fork configuration before Homestead.\<close>

definition frontier :: forks where
  "frontier = \<lparr>Homestead = False, Istanbul = False, EIP155 = False, EIP158 = False,
     EIP2929 = False, EIP2930 = False, EIP3651 = False, EIP3860 = False, London = False,
     TxHashWithType = False\<rparr>"

text \<open>An interpreter that stores 1 in slot 1 of the frame's account, warming the slot,
  and then fails with out-of-gas when the frame has less than 100 gas, and otherwise returns
  the frame's code with 100 gas used.\<close>

definition storeRun :: "contract \<Rightarrow> transition \<Rightarrow> exec_result \<times> transition" where
  "storeRun c t =
     (let t1 = SetStorage (c_Address c) 1 1 t;
          t2 = t1\<lparr>ctx := (ctx t1)\<lparr>ctx_AccessList :=
                 map_option (\<lambda>al. snd (AddSlot (c_Address c) 1 al)) (ctx_AccessList (ctx t1))\<rparr>\<rparr>
      in if c_Gas c < 100 then (failure 0 ErrOutOfGas, t2)
         else (\<lparr>ReturnValue = c_Code c, GasLeft = c_Gas c - 100, GasUsed = 0, Err = None,
                r_Address = 0\<rparr>, t2))"

definition env1 :: env where
  "env1 = env0\<lparr>run := storeRun\<rparr>"

definition warmList :: access_list where
  "warmList = \<lparr>al_addresses = {10, 0x99}, al_slots = (\<lambda>a. None)\<rparr>"

definition warmHost :: transition where
  "warmHost = host0\<lparr>ctx := (ctx host0)\<lparr>ctx_AccessList := Some warmList\<rparr>\<rparr>"

definition hostFrontier :: transition where
  "hostFrontier = host0\<lparr>config := frontier\<rparr>"

definition failingCall :: contract where
  "failingCall = NewContractCall 1 10 10 0x99 (Some 5) 50 [0] []"

definition goodCall :: contract where
  "goodCall = NewContractCall 1 10 10 0x99 (Some 5) 150 [0] []"

definition shortCreate :: contract where
  "shortCreate = NewContractCreation 1 10 10 0x99 (Some 5) 150 [0]"

text \<open>A codec that decodes an invocation with the largest validation gas.\<close>

definition abi2 :: abi where
  "abi2 = abi0\<lparr>decode_ENGINE_EXECUTE :=
     (\<lambda>bs. if bs = [] then Some (grant0, call2, meta0) else None)\<rparr>"











section \<open>The gas of the engine-execute precompile\<close>

lemmas fee_defs =
  precompileGasUnits_def evmTxUnits_def totalTxUnits_def calcFee_def logUnits_def
  callOverheadUnits_def engineOverheadGas_def logCostUnits_def calcEngineMetaLen_def
  calcEngineExtrasLen_def dynLen_def pad32_def bLen_def str_bytes_def nArgsMeta_def
  nArgsExtras_def calldataCostUnits_def

section \<open>Session identifiers are monotone\<close>




lemma storage_EmitLog [simp]:
  "storage (objs (state (EmitLog a ts d h))) = storage (objs (state h))"
  by (simp add: EmitLog_def txn_EmitLog_def)


lemma storage_logGrantFeeCharged [simp]:
  "storage (objs (state (logGrantFeeCharged e p en s r f h))) = storage (objs (state h))"
  by (simp add: logGrantFeeCharged_def split: option.splits)















section \<open>The events and the refund of the engine-execute precompile\<close>

lemma logs_Transfer:
  "Transfer a b v h = (r, h') \<Longrightarrow> logsOf h' = logsOf h"
  by (auto simp: logsOf_def Transfer_def txn_SubBalance_def txn_AddBalance_def
      split: option.splits if_splits)

lemma logs_EmitLog:
  "logsOf (EmitLog (EngineExecutePrecompile (addrs e)) ts d h) = logsOf h @ [precompileLog e ts d]"
  by (simp add: logsOf_def EmitLog_def txn_EmitLog_def precompileLog_def)

lemma logs_SetStorage [simp]: "logsOf (SetStorage a k v h) = logsOf h"
  by (simp add: logsOf_def SetStorage_def txn_SetState_def)

lemma authorize_engine:
  "authorizeEngineCaller e h caller = (engine, True) \<Longrightarrow> engine = caller"
  by (auto simp: authorizeEngineCaller_def Let_def split: if_splits)

lemma billGrants_result:
  assumes "billGrants p en s r h = (Inr fee, h')" and "s > 0"
  shows "logsOf h' = logsOf h" and "fee = (nz r * uint s + (31536000 - 1)) div 31536000"
  using assms
  by (auto simp: billGrants_def Let_def split: prod.splits option.splits if_splits
      dest: logs_Transfer)

lemma logs_exec_authorize:
  assumes "exec_authorize e grant call caller h = (Inr engine, h')"
  shows "logsOf h' = logsOf h @ grantFeeLogs e grant call caller" and "engine = caller"
proof -
  from assms have auth: "authorizeEngineCaller e h caller = (engine, True)"
    by (auto simp: exec_authorize_def Let_def split: prod.splits sum.splits if_splits)
  then show eng: "engine = caller" by (rule authorize_engine)
  show "logsOf h' = logsOf h @ grantFeeLogs e grant call caller"
  proof (cases "call_GrantFeeSeconds call > 0")
    case False
    with assms auth show ?thesis
      by (simp add: exec_authorize_def grantFeeLogs_def)
  next
    case True
    with assms auth obtain fee h1 where
      b: "billGrants (g_From grant) engine (call_GrantFeeSeconds call)
            (call_GrantFeePerYearWei call) h = (Inr fee, h1)"
      and h': "h' = logGrantFeeCharged e (g_From grant) engine (call_GrantFeeSeconds call)
            (call_GrantFeePerYearWei call) (Some fee) h1"
      by (auto simp: exec_authorize_def Let_def split: prod.splits sum.splits)
    note r = billGrants_result [OF b True]
    show ?thesis
      using True r eng
      by (simp add: h' logGrantFeeCharged_def grantFeeLogs_def logs_EmitLog nz_def
          split: option.splits)
  qed
qed

lemma logs_exec_session:
  "exec_session e grant call h = (r, h') \<Longrightarrow> logsOf h' = logsOf h"
  by (auto simp: exec_session_def sstoreU256_def Let_def
      split: option.splits if_splits sum.splits)

lemma logs_exec_pre:
  assumes "exec_pre e fc grant call caller h = (Inr x, h')"
  shows "logsOf h' = logsOf h @ grantFeeLogs e grant call caller"
proof -
  obtain r1 h1 where a: "exec_authorize e grant call caller h = (r1, h1)"
    by (cases "exec_authorize e grant call caller h")
  obtain r2 h2 where b: "exec_session e grant call h1 = (r2, h2)"
    by (cases "exec_session e grant call h1")
  from assms a b obtain engine where r1: "r1 = Inr engine" and h2: "h' = h2"
    by (auto simp: exec_pre_def split: sum.splits option.splits if_splits)
  from logs_exec_authorize(1) [OF a [unfolded r1]] logs_exec_session [OF b] h2
  show ?thesis by simp
qed


lemma exec_inner_cap:
  "exec_inner e grant (call\<lparr>call_MaxFeePerGas := v\<rparr>) h = exec_inner e grant call h"
  by (simp add: exec_inner_def Let_def)

lemma exec_fees_call:
  "exec_fees call h = Inr (paid, c1) \<Longrightarrow> c1 = call \<or> c1 = call\<lparr>call_MaxFeePerGas := Some paid\<rparr>"
  by (auto simp: exec_fees_def Let_def split: option.splits if_splits sum.splits)

lemma exec_pre_call:
  assumes "exec_pre e fc grant call caller h = (Inr (engine, paid, c1), h')"
  shows "c1 = call \<or> c1 = call\<lparr>call_MaxFeePerGas := Some paid\<rparr>"
  using assms
  by (auto simp: exec_pre_def split: prod.splits sum.splits option.splits if_splits
      dest: exec_fees_call)

lemma logs_exec_settle:
  assumes "exec_settle e fc grant call meta engine paid (gasUsed, success) h = (Inr out, h')"
  shows "logsOf h' = logsOf h @ [engineMetaLog e grant call meta success, engineExtrasLog e meta gasUsed]"
  using assms
  by (auto simp: exec_settle_def Let_def logs_EmitLog engineMetaLog_def engineExtrasLog_def
      split: prod.splits option.splits if_splits dest: logs_Transfer)

lemma engineMetaLog_cap [simp]:
  "engineMetaLog e grant (call\<lparr>call_MaxFeePerGas := v\<rparr>) meta success = engineMetaLog e grant call meta success"
  by (simp add: engineMetaLog_def)

text \<open>
  C7, amended. An invocation of \<open>ENGINE_EXECUTE\<close> that returns successfully emits, from
  the precompile's address: before the inner CALL, one log without topics for the grant
  fee when \<open>grant_fee_seconds > 0\<close> (and its payload encodes), and nothing otherwise;
  after the inner CALL, exactly the EngineMeta log and then the EngineExtrasV2 log,
  whether the inner CALL succeeded or not. Without an inner CALL (no target or no gas
  limit) the buffer grows by exactly these logs.
\<close>

theorem engine_events:
  assumes ok: "engineExecute_exec e input grant call meta caller host = (Inr out, host')"
  shows "logsOf (snd (exec_pre e (calcFee input grant call meta) grant call caller host))
           = logsOf host @ grantFeeLogs e grant call caller
       \<and> logsOf host' =
           logsOf (snd (exec_inner e grant call
                          (snd (exec_pre e (calcFee input grant call meta) grant call caller host))))
           @ [engineMetaLog e grant call meta
                (snd (fst (exec_inner e grant call
                   (snd (exec_pre e (calcFee input grant call meta) grant call caller host))))),
              engineExtrasLog e meta
                (fst (fst (exec_inner e grant call
                   (snd (exec_pre e (calcFee input grant call meta) grant call caller host)))))]
       \<and> ((call_To call = 0 \<or> call_GasLimit call = 0) \<longrightarrow>
            logsOf host' = logsOf host @ grantFeeLogs e grant call caller
              @ [engineMetaLog e grant call meta False, engineExtrasLog e meta 0])"
proof -
  let ?fc = "calcFee input grant call meta"
  obtain r hp where p: "exec_pre e ?fc grant call caller host = (r, hp)"
    by (cases "exec_pre e ?fc grant call caller host")
  from ok p obtain engine paid c1 where r: "r = Inr (engine, paid, c1)"
    by (cases r) (auto simp: engineExecute_exec_def)
  obtain gasUsed success hi where i: "exec_inner e grant c1 hp = ((gasUsed, success), hi)"
    by (cases "exec_inner e grant c1 hp") auto
  from exec_pre_call [OF p [unfolded r]] have c1: "c1 = call \<or> c1 = call\<lparr>call_MaxFeePerGas := Some paid\<rparr>" .
  then have i': "exec_inner e grant call hp = ((gasUsed, success), hi)"
    using i by (auto simp: exec_inner_cap)
  from ok p r i have st: "exec_settle e ?fc grant c1 meta engine paid (gasUsed, success) hi = (Inr out, host')"
    by (simp add: engineExecute_exec_def)
  have l1: "logsOf hp = logsOf host @ grantFeeLogs e grant call caller"
    using logs_exec_pre [OF p [unfolded r]] .
  have l2: "logsOf host' = logsOf hi @ [engineMetaLog e grant call meta success, engineExtrasLog e meta gasUsed]"
    using logs_exec_settle [OF st] c1 by auto
  have l3: "call_To call = 0 \<or> call_GasLimit call = 0 \<Longrightarrow> hi = hp \<and> gasUsed = 0 \<and> \<not> success"
    using i' by (auto simp: exec_inner_def)
  show ?thesis
    using l1 l2 l3 by (auto simp: p i')
qed


lemmas exec_defs =
  engineExecute_exec_def exec_pre_def exec_authorize_def authorizeEngineCaller_def
  billGrants_def nz_def Transfer_def txn_SubBalance_def txn_AddBalance_def
  logGrantFeeCharged_def EmitLog_def txn_EmitLog_def exec_session_def nextOr1_def
  sloadU256_def GetStorage_def txn_GetState_def sstoreU256_def SetStorage_def
  txn_SetState_def GetTxContext_def exec_fees_def worstTotal_def GetBalance_def
  txn_GetBalance_def exec_inner_def exec_settle_def

lemmas instance_defs =
  env0_def abi0_def call0_def grant0_def meta0_def host0_def world0_def

text \<open>
  C7 as stated fails: with a grant fee the invocation emits a third event. With
  \<open>grant_fee_seconds = 1\<close> the invocation below returns successfully and leaves three
  logs of the precompile in an empty buffer, the first without topics.
\<close>

theorem engine_events_counterexample:
  "fst (engineExecute_exec env0 [1, 0, 0, 0] grant0 call1 meta0 14 host0) = Inr [0]
   \<and> logsOf host0 = []
   \<and> map l_Topics (logsOf (snd (engineExecute_exec env0 [1, 0, 0, 0] grant0 call1 meta0 14 host0)))
       = [[], [1], [2]]
   \<and> map l_Address (logsOf (snd (engineExecute_exec env0 [1, 0, 0, 0] grant0 call1 meta0 14 host0)))
       = [EngineExecutePrecompile (addrs env0), EngineExecutePrecompile (addrs env0),
          EngineExecutePrecompile (addrs env0)]"
  by (simp add: exec_defs instance_defs call1_def fee_defs logsOf_def Let_def
      BytesToHash_def bytes_to_nat_def)

theorem engine_events_witness:
  "logsOf (snd (engineExecute_exec env0 [1, 0, 0, 0] grant0 call0 meta0 14 host0))
     = [engineMetaLog env0 grant0 call0 meta0 False, engineExtrasLog env0 meta0 0]"
proof -
  have "fst (engineExecute_exec env0 [1, 0, 0, 0] grant0 call0 meta0 14 host0) = Inr [0]"
    by (simp add: exec_defs instance_defs fee_defs Let_def)
  then have ok: "engineExecute_exec env0 [1, 0, 0, 0] grant0 call0 meta0 14 host0
      = (Inr [0], snd (engineExecute_exec env0 [1, 0, 0, 0] grant0 call0 meta0 14 host0))"
    by (simp add: prod_eq_iff)
  have to: "call_To call0 = 0" and g: "grantFeeLogs env0 grant0 call0 14 = []"
    and l: "logsOf host0 = []"
    by (simp_all add: call0_def grantFeeLogs_def logsOf_def host0_def world0_def)
  from engine_events [OF ok, THEN conjunct2, THEN conjunct2] to g l show ?thesis by simp
qed

text \<open>
  C3 at a failing input: \<open>validation_gas = 2^64 - 1\<close> wraps the 64-bit sum
  \<open>total_units\<close> to 28415 while the refund is computed from 28416 and \<open>2^64 - 1\<close>
  separately. The preflight passes on a balance of \<open>10^18\<close> (worst = 85245 Gwei), and
  the transfer of the refund then fails with InsufficientBalance.
\<close>

theorem refund_transfer_fails:
  "fst (exec_pre env0 (calcFee [1, 0, 0, 0] grant0 call2 meta0) grant0 call2 14 host0)
     = Inr (14, 3000000000, call2\<lparr>call_MaxFeePerGas := Some 3000000000\<rparr>)
   \<and> totalTxUnits (calcFee [1, 0, 0, 0] grant0 call2 meta0) = 28415
   \<and> evmTxUnits (calcFee [1, 0, 0, 0] grant0 call2 meta0) = 28416
   \<and> worstTotal (calcFee [1, 0, 0, 0] grant0 call2 meta0) call2 3000000000 = 85245000000000
   \<and> GetBalance host0 10 = 1000000000000000000
   \<and> fst (engineExecute_exec env0 [1, 0, 0, 0] grant0 call2 meta0 14 host0)
       = Inl ErrInsufficientBalance
   \<and> precompileGasUnits (calcFee [1, 0, 0, 0] grant0 call2 meta0) = 7387"
  by (simp add: exec_defs instance_defs call2_def fee_defs Let_def)

section \<open>The call depth\<close>

text \<open>
  C9, amended. The depth of a frame counts from 1 for the frame of the transaction,
  and the cap is on depths above 1025: a CALL or CREATE frame whose depth exceeds 1025
  fails with the Depth error, returns the frame's gas and leaves the state as it was;
  the runtime is not entered (the result does not depend on it).
\<close>

theorem call_depth_cap:
  "c_Depth c > 1025 \<longrightarrow>
     applyCall e c callType t = (failure (c_Gas c) ErrDepth, t)
     \<and> applyCreate e c t = (failure (c_Gas c) ErrDepth, t)
     \<and> Callx e c t = (failure (c_Gas c) ErrDepth, t)"
  by (simp add: applyCall_def applyCreate_def Callx_def)

theorem call_depth_cap_witness:
  "fst (applyCall env0 frame1026 Call host0) = failure 21000 ErrDepth
   \<and> fst (applyCreate env0 frame1026 host0) = failure 21000 ErrDepth
   \<and> logs (objs (state (snd (Callx env0 frame1026 host0)))) = []"
proof -
  have d: "c_Depth frame1026 > 1025" and g: "c_Gas frame1026 = 21000"
    by (simp_all add: frame1026_def NewContractCall_def)
  from call_depth_cap [of frame1026 env0 Call host0] d g
  show ?thesis by (simp add: host0_def world0_def)
qed

text \<open>
  C9 as stated fails: a frame of depth 1025 exceeds 1024, and neither \<open>applyCall\<close> nor
  \<open>applyCreate\<close> fails it with the Depth error; the runtime runs and succeeds.
\<close>

theorem call_depth_cap_counterexample:
  "c_Depth frame1025 = 1025
   \<and> Err (fst (applyCall env0 frame1025 Call host0)) = None
   \<and> Err (fst (applyCreate env0 frame1025 host0)) = None"
  by (simp add: frame1025_def NewContractCall_def applyCall_def applyCreate_def
      applyCreate_finish_def env0_def okRun_def host0_def world0_def forks0_def Let_def
      txn_Snapshot_def Transfer_def txn_SubBalance_def txn_AddBalance_def Failed_def
      txn_IncrNonce_def hasCodeOrNonce_def txn_GetNonce_def captureAccessList_def
      TxPoolMaxInitCodeSize_def SpuriousDragonMaxCodeSize_def deploymentDenied_def
      txn_SetCode_def)

section \<open>Processing a block\<close>




section \<open>The receipt and its synthetic log\<close>



lemma nat_to_bytes_0 [simp]: "nat_to_bytes 0 = []"
  by (simp add: nat_to_bytes.simps)

lemma big_Bytes_0 [simp]: "big_Bytes 0 = []"
  by (simp add: big_Bytes_def)

lemma Write_receipt:
  assumes "Write e txn0 t = (None, t')"
  shows "\<exists>txn result t1 donation validator burned.
           (txn = txn0 \<or> (\<exists>from. sender e txn0 = Inr from \<and> txn = txn0\<lparr>tx_From := from\<rparr>))
         \<and> Apply e txn t = (Inr result, t1)
         \<and> donationFee t1 = Some donation \<and> validatorFee t1 = Some validator
         \<and> burnedFee t1 = Some burned
         \<and> length (receipts t') = length (receipts t1) + 1
         \<and> rc_GasUsed (last (receipts t')) = GasUsed result
         \<and> rc_Logs (last (receipts t')) =
             fst (txnLogs e (state t1))
             @ [\<lparr>l_Address = 0x000000000000000000000000000000000000fEE1,
                 l_Topics = [BytesToHash (Keccak256 (hashing e)
                               (str_bytes ''XGRFeeSplit(uint256,uint256,uint256)''))],
                 l_Data = LeftPadBytes (big_Bytes donation) 32
                          @ LeftPadBytes (big_Bytes validator) 32
                          @ LeftPadBytes (big_Bytes burned) 32,
                 l_BlockNumber = ctx_Number (ctx t1), l_TxHash = tx_Hash txn0\<rparr>]"
proof -
  from assms obtain txn where txn: "txn = txn0 \<or> (\<exists>from. sender e txn0 = Inr from \<and> txn = txn0\<lparr>tx_From := from\<rparr>)"
    and w: "(case Apply e txn t of
             (Inl err, t1) \<Rightarrow> (Some err, t1)
           | (Inr result, t1) \<Rightarrow>
               (let t2 = t1\<lparr>totalGas := totalGas t1 + GasUsed result\<rparr> in
                case (donationFee t2, validatorFee t2, burnedFee t2) of
                  (Some donation, Some validator, Some burned) \<Rightarrow>
                    (let myLog = feeSplitLog e txn t2 donation validator burned;
                         (logs0, st3) = txnLogs e (state t2);
                         t3 = t2\<lparr>state := st3\<rparr>;
                         logs1 = logs0 @ [myLog];
                         receipt = \<lparr>rc_Status = ReceiptFailed, rc_CumulativeGasUsed = totalGas t3,
                                    rc_TransactionType = tx_Type txn, rc_TxHash = tx_Hash txn,
                                    rc_GasUsed = GasUsed result, rc_ContractAddress = None,
                                    rc_Logs = [], rc_LogsBloom = []\<rparr>
                     in
                       case cleanDeleteObjects e (state t3) of
                         Inl err \<Rightarrow> (Some (PlainError err), t3)
                       | Inr st4 \<Rightarrow>
                           (let t4 = t3\<lparr>state := st4\<rparr>;
                                receipt1 = receipt\<lparr>rc_Status :=
                                             (if Failed result then ReceiptFailed else ReceiptSuccess)\<rparr>;
                                receipt2 = (if tx_To txn = None
                                            then receipt1\<lparr>rc_ContractAddress :=
                                                   Some (CreateAddress (hashing e) (tx_From txn) (tx_Nonce txn))\<rparr>
                                            else receipt1);
                                receipt3 = receipt2\<lparr>rc_Logs := logs1\<rparr>;
                                receipt4 = receipt3\<lparr>rc_LogsBloom := createBloom e (rc_Logs receipt3)\<rparr>
                            in (None, t4\<lparr>receipts := receipts t4 @ [receipt4]\<rparr>)))
                | _ \<Rightarrow> (Some (PlainError ErrNilPointer), t2))) = (None, t')"
    by (auto simp: Write_def Let_def split: if_splits sum.splits)
  from txn have hash: "tx_Hash txn = tx_Hash txn0" by auto
  obtain r t1 where a: "Apply e txn t = (r, t1)" by (cases "Apply e txn t")
  from w a obtain result where r: "r = Inr result" by (cases r) auto
  from w a r obtain donation validator burned where
    f: "donationFee t1 = Some donation" "validatorFee t1 = Some validator" "burnedFee t1 = Some burned"
    by (auto simp: Let_def split: option.splits)
  obtain logs0 st3 where l: "txnLogs e (state t1) = (logs0, st3)" by (cases "txnLogs e (state t1)")
  from w a r f l obtain st4 where c: "cleanDeleteObjects e st3 = Inr st4"
    by (auto simp: Let_def split: sum.splits)
  from w a r f l c have
    "length (receipts t') = length (receipts t1) + 1
     \<and> rc_GasUsed (last (receipts t')) = GasUsed result
     \<and> rc_Logs (last (receipts t')) = logs0 @ [feeSplitLog e txn (t1\<lparr>totalGas := totalGas t1 + GasUsed result\<rparr>) donation validator burned]"
    by (auto simp: Let_def)
  then show ?thesis
    using txn a r f l hash
    by (auto simp: feeSplitLog_def feeSplitAddress_def Keccak256Hash_def Let_def)
qed

lemma Write_stateTx0: "fst (Write env0 stateTx0 host0) = None"
  by (simp add: Write_def Apply_def apply_tx_def apply_gates_def checkAndProcessStateTx_def
      stateTx0_def tx0_def env0_def host0_def world0_def forks0_def subGasPool_def
      TransactionGasCost_def payloadCost_def initCodeCost_def accessListCost_def IsContractCreation_def TxGas_def Let_def emptyFrom_def
      txn_Snapshot_def initAccessList_def txn_IncrNonce_def Call2_def NewContractCall_def
      applyCall_def captureAccessList_def Transfer_def txn_SubBalance_def txn_AddBalance_def
      okRun_def Failed_def apply_settle_def txn_GetRefund_def donationConfig_def feeSplit_def
      DefaultDonationPercent_def addGasPool_def nz_def txn_GetCode_def)


text \<open>
  C8, amended. For every transaction that \<open>Write\<close> applies and gives a receipt, of
  whatever type (state transactions included), the receipt is appended to the receipts
  and its logs are the journal's log buffer followed by one synthetic log from address
  \<open>0x...fEE1\<close> with the topic \<open>keccak(XGRFeeSplit(uint256,uint256,uint256))\<close> and the data
  donation, validator share and burned amount, each left-padded to 32 bytes.
\<close>

theorem fee_split_log:
  assumes "Write e txn0 t = (None, t')"
  shows "\<exists>txn result t1 donation validator burned.
           (txn = txn0 \<or> (\<exists>from. sender e txn0 = Inr from \<and> txn = txn0\<lparr>tx_From := from\<rparr>))
         \<and> Apply e txn t = (Inr result, t1)
         \<and> donationFee t1 = Some donation \<and> validatorFee t1 = Some validator
         \<and> burnedFee t1 = Some burned
         \<and> length (receipts t') = length (receipts t1) + 1
         \<and> rc_GasUsed (last (receipts t')) = GasUsed result
         \<and> rc_Logs (last (receipts t')) =
             fst (txnLogs e (state t1))
             @ [\<lparr>l_Address = 0x000000000000000000000000000000000000fEE1,
                 l_Topics = [BytesToHash (Keccak256 (hashing e)
                               (str_bytes ''XGRFeeSplit(uint256,uint256,uint256)''))],
                 l_Data = LeftPadBytes (big_Bytes donation) 32
                          @ LeftPadBytes (big_Bytes validator) 32
                          @ LeftPadBytes (big_Bytes burned) 32,
                 l_BlockNumber = ctx_Number (ctx t1), l_TxHash = tx_Hash txn0\<rparr>]"
  using assms by (rule Write_receipt)

lemma Write_tx0: "fst (Write env0 tx0 host0) = None"
  by (simp add: Write_def Apply_def apply_tx_def apply_gates_def checkAndProcessTx_def
      nonceCheck_def txn_GetNonce_def subGasLimitPrice_def TxPoolMaxInitCodeSize_def
      tx0_def env0_def host0_def world0_def forks0_def subGasPool_def
      TransactionGasCost_def payloadCost_def initCodeCost_def accessListCost_def IsContractCreation_def TxGas_def Let_def emptyFrom_def
      txn_Snapshot_def initAccessList_def txn_IncrNonce_def Call2_def NewContractCall_def
      applyCall_def captureAccessList_def Transfer_def txn_SubBalance_def txn_AddBalance_def
      okRun_def Failed_def apply_settle_def txn_GetRefund_def donationConfig_def feeSplit_def
      DefaultDonationPercent_def addGasPool_def nz_def txn_GetCode_def)

theorem fee_split_log_witness:
  "tx_Type tx0 = LegacyTx
   \<and> l_Address (last (rc_Logs (last (receipts (snd (Write env0 tx0 host0))))))
       = 0x000000000000000000000000000000000000fEE1"
proof -
  have ok: "Write env0 tx0 host0 = (None, snd (Write env0 tx0 host0))"
    using Write_tx0 by (simp add: prod_eq_iff)
  from fee_split_log [OF ok] show ?thesis
    by (auto simp: tx0_def)
qed

text \<open>
  C8 as stated fails in its last part: the synthetic log is not reserved to non-state
  transactions. The state transaction below is applied and its receipt ends with the
  log from \<open>0x...fEE1\<close>.
\<close>

theorem fee_split_log_counterexample:
  "tx_Type stateTx0 = StateTx
   \<and> fst (Write env0 stateTx0 host0) = None
   \<and> l_Address (last (rc_Logs (last (receipts (snd (Write env0 stateTx0 host0))))))
       = 0x000000000000000000000000000000000000fEE1"
proof -
  have ok: "Write env0 stateTx0 host0 = (None, snd (Write env0 stateTx0 host0))"
    using Write_stateTx0 by (simp add: prod_eq_iff)
  from Write_receipt [OF ok] Write_stateTx0 show ?thesis
    by (auto simp: stateTx0_def)
qed

section \<open>The fee split\<close>



lemma uint_le_100: "pct \<le> (100 :: u64) \<Longrightarrow> uint pct \<le> 100"
  by (simp add: word_le_def)

lemma donation_bounds:
  assumes "0 \<le> (tot :: int)" and "0 \<le> p" and "p \<le> 100"
  shows "0 \<le> tot * p div 100" and "tot * p div 100 \<le> tot"
proof -
  show "0 \<le> tot * p div 100"
    using assms by (simp add: pos_imp_zdiv_nonneg_iff)
  have "tot * p \<le> tot * 100"
    using assms by (intro mult_left_mono) simp_all
  then have "tot * p div 100 \<le> tot * 100 div 100"
    by (rule zdiv_mono1) simp
  then show "tot * p div 100 \<le> tot" by simp
qed

lemma feeSplit_eq:
  assumes "pct \<le> 100"
  shows "feeSplit raw pct =
           (min raw burnAmount,
            (raw - min raw burnAmount) * uint pct div 100,
            (raw - min raw burnAmount) - (raw - min raw burnAmount) * uint pct div 100)"
proof (cases "raw \<le> 1000000000000")
  case True
  then show ?thesis
    by (simp add: feeSplit_def Let_def burnAmount_def min_def)
next
  case False
  then have t0: "0 \<le> raw - 1000000000000" by simp
  have p: "0 \<le> uint pct" "uint pct \<le> 100" using assms by (simp_all add: uint_le_100)
  note b = donation_bounds [OF t0 p]
  from False b show ?thesis
    by (simp add: feeSplit_def Let_def burnAmount_def min_def not_less [symmetric])
qed

lemma feeSplit_small:
  "raw < burnAmount \<Longrightarrow> feeSplit raw pct = (raw, 0, 0)"
  by (simp add: feeSplit_def Let_def burnAmount_def)

lemma donationConfig_pct: "snd (snd (donationConfig e t)) \<le> 100"
  by (simp add: donationConfig_def Let_def DefaultDonationPercent_def)

lemma donationConfig_default:
  assumes "EngineRegistryAddress (chain e) = 0
           \<or> txn_GetCode (state t) (EngineRegistryAddress (chain e)) = []"
  shows "donationConfig e t =
           (0x0000000000000000000000000000000000000666,
            0x0000000000000000000000000000000000000666, 15)"
  using assms
  by (auto simp: donationConfig_def Let_def DefaultDonationPercent_def DefaultDonationAddress_def
      DefaultBurnedAddress_def)

lemma donationConfig_balances:
  "donationConfig e (t\<lparr>state := txn_AddBalance a v (state t)\<rparr>) = donationConfig e t"
  by (simp add: donationConfig_def txn_AddBalance_def txn_GetCode_def txn_GetState_def Let_def)

lemma balances_AddBalance:
  "balances (objs (txn_AddBalance to v s)) a = balances (objs s) a + credit to v a"
  by (simp add: txn_AddBalance_def credit_def)

lemma credit_0 [simp]: "credit to 0 a = 0"
  by (simp add: credit_def)

lemma apply_settle_fees:
  assumes "apply_settle e msg gasPrice result0 t = (r, t')"
  shows "r = updateGasUsed e result0 (tx_Gas msg) (txn_GetRefund (state t))"
    and "burnedFee t' = Some (fst (feeSplit (uint (GasUsed r) * gasPrice) (snd (snd (donationConfig e t)))))"
    and "donationFee t' = Some (fst (snd (feeSplit (uint (GasUsed r) * gasPrice) (snd (snd (donationConfig e t))))))"
    and "validatorFee t' = Some (snd (snd (feeSplit (uint (GasUsed r) * gasPrice) (snd (snd (donationConfig e t))))))"
  using assms
  by (auto simp: apply_settle_def Let_def donationConfig_balances addGasPool_def
      split: prod.splits)

lemma apply_settle_balances:
  assumes s: "apply_settle e msg gasPrice result0 t = (r, t')"
    and price: "0 \<le> gasPrice"
    and cfg: "donationConfig e t = (burnedAddr, donationAddr, pct)"
    and fs: "feeSplit (uint (GasUsed r) * gasPrice) pct = (burned, donation, validator)"
  shows "balances (objs (state t')) a =
           balances (objs (state t)) a
           + credit (tx_From msg) (uint (GasLeft r) * gasPrice) a
           + credit donationAddr donation a
           + credit (ctx_Coinbase (ctx t)) validator a
           + credit burnedAddr burned a"
proof -
  have r: "r = updateGasUsed e result0 (tx_Gas msg) (txn_GetRefund (state t))"
    using apply_settle_fees(1) [OF s] .
  have pct: "pct \<le> 100" using donationConfig_pct [of e t] cfg by simp
  have raw0: "0 \<le> uint (GasUsed r) * gasPrice" using price by simp
  from fs feeSplit_eq [OF pct, of "uint (GasUsed r) * gasPrice"]
  have b: "burned = min (uint (GasUsed r) * gasPrice) burnAmount"
    and d: "donation = (uint (GasUsed r) * gasPrice - burned) * uint pct div 100"
    and v: "validator = (uint (GasUsed r) * gasPrice - burned) - donation"
    by auto
  have b0: "0 \<le> burned" using raw0 b by (simp add: burnAmount_def)
  have t0: "0 \<le> uint (GasUsed r) * gasPrice - burned" using b by simp
  have p: "0 \<le> uint pct" "uint pct \<le> 100" using pct by (simp_all add: uint_le_100)
  note bd = donation_bounds [OF t0 p]
  have d0: "0 \<le> donation" and v0: "0 \<le> validator" using bd d v by simp_all
  have pos: "\<And>x to. 0 \<le> x \<Longrightarrow> (if 0 < x then credit to x a else 0) = credit to x a"
    by (auto simp: credit_def)
  show ?thesis
    using s cfg fs r [symmetric] d0 v0 b0
    by (auto simp: apply_settle_def Let_def donationConfig_balances addGasPool_def
        balances_AddBalance split: prod.splits)
qed


lemma ctx_checkAndProcessTx:
  "checkAndProcessTx e msg t = (r, t1) \<Longrightarrow> ctx t1 = ctx t"
  by (auto simp: checkAndProcessTx_def subGasLimitPrice_def Let_def
      split: if_splits option.splits sum.splits prod.splits)

lemma ctx_apply_gates:
  "apply_gates e msg t = (r, t1) \<Longrightarrow> ctx t1 = ctx t"
  by (auto simp: apply_gates_def subGasPool_def Let_def
      split: if_splits option.splits sum.splits prod.splits
      dest: ctx_checkAndProcessTx)

lemma apply_tx_settles:
  assumes "apply_tx e msg t = (Inr r, t')"
  shows "\<exists>baseFee result0 tb.
           ctx_BaseFee (ctx t) = Some baseFee
         \<and> apply_settle e msg (getGasPrice e msg (of_int baseFee)) result0 tb = (r, t')"
proof -
  obtain g t1 where g: "apply_gates e msg t = (g, t1)" by (cases "apply_gates e msg t")
  from ctx_apply_gates [OF g] have c: "ctx t1 = ctx t" .
  from assms g c show ?thesis
    by (auto simp: apply_tx_def Let_def
        split: sum.splits option.splits prod.splits if_splits)
qed

text \<open>
  C2. For every transaction that \<open>apply\<close> applies, with \<open>raw\<close> the gas used times the gas
  price: the burned amount is 1000 Gwei clamped to \<open>raw\<close>, the donation is the floor of
  (\<open>raw\<close> - burn) times the donation percent over 100, the validator's share is the
  rest; below 1000 Gwei the burn is \<open>raw\<close> and both shares are 0. The settlement
  credits the donation to the donation address, the validator's share to the coinbase
  and the burn to the burned address (besides the refund of the unused gas to the
  sender). The donation percent is at most 100, and without a registry (no address or
  no code) it is 15 and both addresses are \<open>0x...0666\<close>.
\<close>

theorem fee_split:
  assumes "apply_tx e msg t = (Inr r, t')"
  shows "\<exists>baseFee result0 tb burnedAddr donationAddr pct.
           ctx_BaseFee (ctx t) = Some baseFee
         \<and> apply_settle e msg (getGasPrice e msg (of_int baseFee)) result0 tb = (r, t')
         \<and> donationConfig e tb = (burnedAddr, donationAddr, pct) \<and> pct \<le> 100
         \<and> (let gasPrice = getGasPrice e msg (of_int baseFee);
                 raw = uint (GasUsed r) * gasPrice;
                 burn = min raw (1000 * 1000000000);
                 total = raw - burn;
                 donation = total * uint pct div 100;
                 validator = total - donation
             in burnedFee t' = Some burn \<and> donationFee t' = Some donation
                \<and> validatorFee t' = Some validator
                \<and> (raw < 1000 * 1000000000 \<longrightarrow> burn = raw \<and> donation = 0 \<and> validator = 0)
                \<and> (0 \<le> gasPrice \<longrightarrow>
                     (\<forall>a. balances (objs (state t')) a =
                            balances (objs (state tb)) a
                            + credit (tx_From msg) (uint (GasLeft r) * gasPrice) a
                            + credit donationAddr donation a
                            + credit (ctx_Coinbase (ctx tb)) validator a
                            + credit burnedAddr burn a)))
         \<and> (EngineRegistryAddress (chain e) = 0
              \<or> txn_GetCode (state tb) (EngineRegistryAddress (chain e)) = [] \<longrightarrow>
            pct = 15 \<and> donationAddr = 0x0000000000000000000000000000000000000666
            \<and> burnedAddr = 0x0000000000000000000000000000000000000666)"
proof -
  from apply_tx_settles [OF assms] obtain baseFee result0 tb where
    bf: "ctx_BaseFee (ctx t) = Some baseFee"
    and s: "apply_settle e msg (getGasPrice e msg (of_int baseFee)) result0 tb = (r, t')"
    by blast
  obtain burnedAddr donationAddr pct where cfg: "donationConfig e tb = (burnedAddr, donationAddr, pct)"
    by (cases "donationConfig e tb") auto
  have pct: "pct \<le> 100" using donationConfig_pct [of e tb] cfg by simp
  let ?gasPrice = "getGasPrice e msg (of_int baseFee)"
  let ?raw = "uint (GasUsed r) * ?gasPrice"
  let ?burn = "min ?raw burnAmount"
  let ?donation = "(?raw - ?burn) * uint pct div 100"
  let ?validator = "(?raw - ?burn) - ?donation"
  have fs: "feeSplit ?raw pct = (?burn, ?donation, ?validator)"
    by (rule feeSplit_eq [OF pct])
  have fees: "burnedFee t' = Some ?burn" "donationFee t' = Some ?donation"
    "validatorFee t' = Some ?validator"
    using apply_settle_fees(2,3,4) [OF s] cfg fs by simp_all
  have small: "?raw < burnAmount \<Longrightarrow> ?burn = ?raw \<and> ?donation = 0 \<and> ?validator = 0"
    by simp
  have bal: "0 \<le> ?gasPrice \<Longrightarrow>
      balances (objs (state t')) a =
        balances (objs (state tb)) a
        + credit (tx_From msg) (uint (GasLeft r) * ?gasPrice) a
        + credit donationAddr ?donation a
        + credit (ctx_Coinbase (ctx tb)) ?validator a
        + credit burnedAddr ?burn a" for a
    by (rule apply_settle_balances [OF s _ cfg fs])
  have dflt: "EngineRegistryAddress (chain e) = 0
              \<or> txn_GetCode (state tb) (EngineRegistryAddress (chain e)) = [] \<Longrightarrow>
            pct = 15 \<and> donationAddr = 0x0000000000000000000000000000000000000666
            \<and> burnedAddr = 0x0000000000000000000000000000000000000666"
    using donationConfig_default [of e tb] cfg by auto
  show ?thesis
    apply (rule exI [of _ baseFee], rule exI [of _ result0], rule exI [of _ tb])
    apply (rule exI [of _ burnedAddr], rule exI [of _ donationAddr], rule exI [of _ pct])
    using bf s cfg pct fees small bal dflt
    by (simp add: Let_def burnAmount_def)
qed


lemma apply_tx0: "fst (apply_tx env0 tx0 host0) = Inr transferResult"
  by (simp add: apply_tx_def apply_gates_def checkAndProcessTx_def transferResult_def
      nonceCheck_def txn_GetNonce_def subGasLimitPrice_def TxPoolMaxInitCodeSize_def
      tx0_def env0_def host0_def world0_def forks0_def subGasPool_def
      TransactionGasCost_def payloadCost_def initCodeCost_def accessListCost_def IsContractCreation_def TxGas_def Let_def
      initAccessList_def txn_IncrNonce_def Call2_def NewContractCall_def
      applyCall_def captureAccessList_def Transfer_def txn_SubBalance_def txn_AddBalance_def
      txn_Snapshot_def okRun_def Failed_def apply_settle_def txn_GetRefund_def donationConfig_def
      feeSplit_def DefaultDonationPercent_def addGasPool_def nz_def txn_GetCode_def)

theorem fee_split_witness:
  "burnedFee (snd (apply_tx env0 tx0 host0)) = Some 1000000000000
   \<and> donationFee (snd (apply_tx env0 tx0 host0)) = Some 6150000000000
   \<and> validatorFee (snd (apply_tx env0 tx0 host0)) = Some 34850000000000"
proof -
  have ok: "apply_tx env0 tx0 host0 = (Inr transferResult, snd (apply_tx env0 tx0 host0))"
    using apply_tx0 by (simp add: prod_eq_iff)
  have reg: "EngineRegistryAddress (chain env0) = 0" by (simp add: env0_def)
  have price: "getGasPrice env0 tx0 b = 2000000000" for b
    by (simp add: env0_def tx0_def nz_def)
  have used: "uint (GasUsed transferResult) = 21000" by (simp add: transferResult_def)
  from fee_split [OF ok] reg price used show ?thesis
    by (auto simp: Let_def)
qed

section \<open>The intrinsic gas\<close>



lemma countZeros_acc:
  "foldl (\<lambda>zeros b. if b = 0 then zeros + 1 else zeros) (acc :: u64) payload
     = acc + of_nat (zeroBytes payload)"
  by (induction payload arbitrary: acc) (simp_all add: zeroBytes_def)

lemma countZeros_eq: "countZeros payload = of_nat (zeroBytes payload)"
  by (simp add: countZeros_def countZeros_acc)

lemma countAccessList_acc:
  "foldl (\<lambda>(addrCount, slotCount) tuple.
            (addrCount + 1, slotCount + of_nat (length (at_StorageKeys tuple)))) (a :: u64, s :: u64) al
     = (a + of_nat (length al),
        s + of_nat (sum_list (map (\<lambda>tuple. length (at_StorageKeys tuple)) al)))"
  by (induction al arbitrary: a s) simp_all

lemma countAccessList_eq:
  "countAccessList al =
     (of_nat (length al), of_nat (sum_list (map (\<lambda>tuple. length (at_StorageKeys tuple)) al)))"
  by (simp add: countAccessList_def countAccessList_acc)

lemma zeroBytes_le: "zeroBytes payload \<le> length payload"
  by (simp add: zeroBytes_def)

lemma unat_of_nat64: "n < 2 ^ 64 \<Longrightarrow> unat (of_nat n :: u64) = n"
  by (simp add: unat_of_nat)

lemma overflow_check:
  assumes c: "c < 2 ^ 64" and m: "m < 2 ^ 64" and k: "0 < unat k"
  shows "((MaxUint64 - of_nat c) div k < (of_nat m :: u64)) \<longleftrightarrow> 2 ^ 64 \<le> c + m * unat k"
proof -
  have "unat (MaxUint64 - of_nat c :: u64) = unat (MaxUint64 :: u64) - unat (of_nat c :: u64)"
    by (rule unat_sub) (simp add: MaxUint64_def)
  then have sub: "unat (MaxUint64 - of_nat c :: u64) = 2 ^ 64 - 1 - c"
    using c by (simp add: MaxUint64_def unat_of_nat64 unsigned_minus_1_eq_mask mask_eq_exp_minus_1)
  have "((MaxUint64 - of_nat c) div k < (of_nat m :: u64))
          \<longleftrightarrow> (2 ^ 64 - 1 - c) div unat k < m"
    using m by (simp add: word_less_nat_alt unat_div sub unat_of_nat64)
  also have "\<dots> \<longleftrightarrow> 2 ^ 64 - 1 - c < m * unat k"
    using k by (simp add: div_less_iff_less_mult)
  also have "\<dots> \<longleftrightarrow> 2 ^ 64 \<le> c + m * unat k"
    using c by auto
  finally show ?thesis .
qed


lemma overflow_check_num:
  assumes "c < 2 ^ 64" and "m < 2 ^ 64"
  shows "((MaxUint64 - of_nat c) div 16 < (of_nat m :: u64)) \<longleftrightarrow> 2 ^ 64 \<le> c + m * 16"
    and "((MaxUint64 - of_nat c) div 68 < (of_nat m :: u64)) \<longleftrightarrow> 2 ^ 64 \<le> c + m * 68"
    and "((MaxUint64 - of_nat c) div 4 < (of_nat m :: u64)) \<longleftrightarrow> 2 ^ 64 \<le> c + m * 4"
    and "((MaxUint64 - of_nat c) div 2 < (of_nat m :: u64)) \<longleftrightarrow> 2 ^ 64 \<le> c + m * 2"
  using overflow_check [OF assms, of 16] overflow_check [OF assms, of 68]
    overflow_check [OF assms, of 4] overflow_check [OF assms, of 2]
  by simp_all

lemma words_of_nat:
  assumes "n < 2 ^ 63"
  shows "((of_nat n + 31) div 32 :: u64) = of_nat ((n + 31) div 32)"
proof -
  have "n + 31 < 2 ^ 64" using assms by simp
  then have "unat (of_nat (n + 31) :: u64) = n + 31" by (rule unat_of_nat64)
  then have "unat ((of_nat (n + 31) :: u64) div 32) = (n + 31) div 32"
    by (simp add: unat_div)
  moreover have "(n + 31) div 32 < 2 ^ 64" using assms by simp
  ultimately have "(of_nat (n + 31) :: u64) div 32 = of_nat ((n + 31) div 32)"
    by (simp add: word_unat_eq_iff unat_of_nat64)
  then show ?thesis by simp
qed

lemma payloadCost_nat:
  assumes n: "length payload < 2 ^ 63" and c: "c = 21000 \<or> c = 53000"
  shows "payloadCost (of_nat c) isIstanbul payload
       = (if 2 ^ 64 \<le> c + (length payload - zeroBytes payload) * (if isIstanbul then 16 else 68)
                       + zeroBytes payload * 4
          then Inl ErrIntrinsicGasOverflow
          else Inr (of_nat (c + (length payload - zeroBytes payload) * (if isIstanbul then 16 else 68)
                            + zeroBytes payload * 4)))"
proof -
  let ?n = "length payload" and ?z = "zeroBytes payload"
  let ?k = "if isIstanbul then 16 else 68 :: nat"
  have z: "?z \<le> ?n" by (rule zeroBytes_le)
  have nz: "(of_nat ?n - of_nat ?z :: u64) = of_nat (?n - ?z)" using z by simp
  have c64: "c < 2 ^ 64" using c by auto
  have m64: "?n - ?z < 2 ^ 64" and z64: "?z < 2 ^ 64" using n z by simp_all
  have chk1: "((MaxUint64 - of_nat c) div (if isIstanbul then 16 else 68 :: u64) < of_nat (?n - ?z))
                \<longleftrightarrow> 2 ^ 64 \<le> c + (?n - ?z) * ?k"
    using overflow_check_num(1,2) [OF c64 m64] by simp
  have chk2: "c + (?n - ?z) * ?k < 2 ^ 64 \<Longrightarrow>
      ((MaxUint64 - (of_nat c + of_nat (?n - ?z) * (if isIstanbul then 16 else 68 :: u64))) div 4
          < (of_nat ?z :: u64))
        \<longleftrightarrow> 2 ^ 64 \<le> c + (?n - ?z) * ?k + ?z * 4"
    using overflow_check_num(3) [of "c + (?n - ?z) * ?k" ?z] z64
    by (cases isIstanbul) simp_all
  show ?thesis
  proof (cases "?n > 0")
    case False
    then show ?thesis using c by (auto simp: zeroBytes_def payloadCost_def)
  next
    case True
    show ?thesis
    proof (cases "2 ^ 64 \<le> c + (?n - ?z) * ?k")
      case ov: True
      then show ?thesis using True chk1
        by (simp add: payloadCost_def Let_def countZeros_eq nz)
    next
      case no: False
      then have lt: "c + (?n - ?z) * ?k < 2 ^ 64" by simp
      show ?thesis
        using True no chk1 chk2 [OF lt]
        by (simp add: payloadCost_def Let_def countZeros_eq nz)
    qed
  qed
qed

lemma initCodeCost_nat:
  assumes n: "length payload < 2 ^ 63" and c: "c < 2 ^ 64"
  shows "initCodeCost (of_nat c) charged payload
       = (if 2 ^ 64 \<le> c + (if charged then ((length payload + 31) div 32) * 2 else 0)
          then Inl ErrIntrinsicGasOverflow
          else Inr (of_nat (c + (if charged then ((length payload + 31) div 32) * 2 else 0))))"
proof -
  have w64: "(length payload + 31) div 32 < 2 ^ 64" using n by simp
  show ?thesis
    using overflow_check_num(4) [OF c w64] c
    by (simp add: initCodeCost_def Let_def words_of_nat [OF n])
qed

lemma accessListCost_nat:
  "accessListCost (of_nat c) charged al
     = of_nat (c + (if charged
                    then length al * 2400
                         + sum_list (map (\<lambda>tuple. length (at_StorageKeys tuple)) al) * 1900
                    else 0))"
  by (simp add: accessListCost_def countAccessList_eq TxAccessListAddressGas_def
      TxAccessListStorageKeyGas_def)

lemma TransactionGasCost_nat:
  assumes n: "length (tx_Input msg) < 2 ^ 63"
  shows "TransactionGasCost msg isHomestead isIstanbul isEIP3860 isEIP2930 =
     (if 2 ^ 64 \<le> payloadGas msg isHomestead isIstanbul isEIP3860 then Inl ErrIntrinsicGasOverflow
      else Inr (of_nat (payloadGas msg isHomestead isIstanbul isEIP3860
                        + accessListGas msg isEIP2930)))"
proof -
  let ?payload = "tx_Input msg"
  let ?c = "if tx_To msg = None \<and> isHomestead then 53000 else 21000 :: nat"
  let ?p1 = "?c + (length ?payload - zeroBytes ?payload) * (if isIstanbul then 16 else 68)
             + zeroBytes ?payload * 4"
  let ?charged = "tx_To msg = None \<and> isEIP3860"
  let ?p2 = "?p1 + (if ?charged then ((length ?payload + 31) div 32) * 2 else 0)"
  have cost0: "(if tx_To msg = None \<and> isHomestead then TxGasContractCreation else TxGas)
                 = of_nat ?c"
    by (simp add: TxGasContractCreation_def TxGas_def)
  have c: "?c = 21000 \<or> ?c = 53000" by simp
  note s1 = payloadCost_nat [OF n c, of isIstanbul]
  have pg: "payloadGas msg isHomestead isIstanbul isEIP3860 = ?p2"
    by (simp add: payloadGas_def)
  have unfold: "TransactionGasCost msg isHomestead isIstanbul isEIP3860 isEIP2930 =
      (case payloadCost (of_nat ?c) isIstanbul ?payload of
         Inl err \<Rightarrow> Inl err
       | Inr cost1 \<Rightarrow>
           (case initCodeCost cost1 ?charged ?payload of
              Inl err \<Rightarrow> Inl err
            | Inr cost2 \<Rightarrow>
                Inr (accessListCost cost2
                       (isEIP2930 \<and> (tx_Type msg = AccessListTx \<or> tx_Type msg = DynamicFeeTx))
                       (tx_AccessList msg))))"
    by (simp only: TransactionGasCost_def Let_def IsContractCreation_def cost0)
  show ?thesis
  proof (cases "2 ^ 64 \<le> ?p1")
    case True
    then have "2 ^ 64 \<le> ?p2" by simp
    moreover have "payloadCost (of_nat ?c) isIstanbul ?payload = Inl ErrIntrinsicGasOverflow"
      using True by (simp only: s1 if_True)
    ultimately show ?thesis
      by (simp only: unfold pg sum.case if_True)
  next
    case False
    then have lt: "?p1 < 2 ^ 64" by simp
    have e1: "payloadCost (of_nat ?c) isIstanbul ?payload = Inr (of_nat ?p1)"
      using False by (simp only: s1 if_False)
    note e2 = initCodeCost_nat [OF n lt, of ?charged]
    show ?thesis
    proof (cases "2 ^ 64 \<le> ?p2")
      case ov: True
      then have "initCodeCost (of_nat ?p1) ?charged ?payload = Inl ErrIntrinsicGasOverflow"
        by (simp only: e2 if_True)
      then show ?thesis
        using ov by (simp only: unfold e1 pg sum.case if_True)
    next
      case no: False
      then have e2': "initCodeCost (of_nat ?p1) ?charged ?payload = Inr (of_nat ?p2)"
        by (simp only: e2 if_False)
      have e3: "accessListCost (of_nat ?p2)
                  (isEIP2930 \<and> (tx_Type msg = AccessListTx \<or> tx_Type msg = DynamicFeeTx))
                  (tx_AccessList msg)
                = of_nat (?p2 + accessListGas msg isEIP2930)"
        by (simp only: accessListCost_nat accessListGas_def)
      show ?thesis
        using no by (simp only: unfold e1 e2' e3 pg sum.case if_False)
    qed
  qed
qed


lemma config_checkAndProcessTx:
  "checkAndProcessTx e msg t = (r, t1) \<Longrightarrow> config t1 = config t"
  by (auto simp: checkAndProcessTx_def subGasLimitPrice_def Let_def
      split: if_splits option.splits sum.splits prod.splits)

lemma checkAndProcessTx_accessList:
  "checkAndProcessTx e msg t = (None, t1) \<Longrightarrow> tx_Type msg = AccessListTx \<Longrightarrow> EIP2930 (config t)"
  by (auto simp: checkAndProcessTx_def split: if_splits)

lemma word_sub_covers: "\<not> (g - c > (g :: u64)) \<Longrightarrow> c \<le> g"
  by (simp add: not_less word_sub_le_iff)

lemma apply_gates_intrinsic:
  assumes "apply_gates e msg t = (Inr gasLeft, t1)"
  shows "\<exists>c. TransactionGasCost msg (Homestead (config t)) (Istanbul (config t))
                 (EIP3860 (config t)) (EIP2930 (config t)) = Inr c
             \<and> c \<le> tx_Gas msg \<and> gasLeft = tx_Gas msg - c"
    and "tx_Type msg = AccessListTx \<Longrightarrow> EIP2930 (config t)"
proof -
  obtain r0 t0 where g0: "(if tx_Type msg = StateTx then (checkAndProcessStateTx e msg, t)
            else checkAndProcessTx e msg t) = (r0, t0)"
    by (cases "if tx_Type msg = StateTx then (checkAndProcessStateTx e msg, t)
            else checkAndProcessTx e msg t")
  from assms g0 have r0: "r0 = None"
    by (cases r0) (auto simp: apply_gates_def)
  have c0: "config t0 = config t"
    using g0 config_checkAndProcessTx [of e msg t r0 t0] by (auto split: if_splits)
  obtain r2 t2 where g2: "subGasPool (tx_Gas msg) t0 = (r2, t2)"
    by (cases "subGasPool (tx_Gas msg) t0")
  then have c2: "config t2 = config t0"
    by (auto simp: subGasPool_def split: if_splits)
  from assms g0 r0 g2 c0 c2
  show "\<exists>c. TransactionGasCost msg (Homestead (config t)) (Istanbul (config t))
                 (EIP3860 (config t)) (EIP2930 (config t)) = Inr c
             \<and> c \<le> tx_Gas msg \<and> gasLeft = tx_Gas msg - c"
    by (auto simp: apply_gates_def Let_def split: option.splits sum.splits if_splits
        dest: word_sub_covers)
  assume al: "tx_Type msg = AccessListTx"
  with g0 r0 show "EIP2930 (config t)"
    by (auto dest: checkAndProcessTx_accessList)
qed

text \<open>
  C5, amended. For a transaction (whose input has a Go slice's length), the intrinsic
  gas is 21000, or 53000 for a creation from Homestead on, + 4 per zero byte of the
  payload + 68 (before Istanbul) or 16 (from Istanbul on) per other byte + 2 per 32-byte
  word of init code for a creation under EIP-3860, and, only when EIP-2930 is active and
  the transaction is of type AccessList or DynamicFee, + 2400 per access-list address +
  1900 per access-list storage key. The result is this sum as a 64-bit number whenever
  the part before the access list fits 64 bits; when that part does not fit, the
  computation fails with IntrinsicGasOverflow. A transaction passes the gates of
  \<open>apply\<close> only if the computation succeeded and its gas covers the intrinsic gas, the
  rest being the gas left for the execution; an AccessList transaction passes them only
  when EIP-2930 is active.
\<close>

theorem intrinsic_gas:
  assumes "length (tx_Input msg) < 2 ^ 63"
  shows "(payloadGas msg isHomestead isIstanbul isEIP3860 < 2 ^ 64 \<longrightarrow>
            TransactionGasCost msg isHomestead isIstanbul isEIP3860 isEIP2930 =
              Inr (of_nat (payloadGas msg isHomestead isIstanbul isEIP3860
                           + accessListGas msg isEIP2930)))
       \<and> (payloadGas msg isHomestead isIstanbul isEIP3860 + accessListGas msg isEIP2930 < 2 ^ 64 \<longrightarrow>
            (\<exists>c. TransactionGasCost msg isHomestead isIstanbul isEIP3860 isEIP2930 = Inr c
                 \<and> unat c = payloadGas msg isHomestead isIstanbul isEIP3860
                            + accessListGas msg isEIP2930))
       \<and> (2 ^ 64 \<le> payloadGas msg isHomestead isIstanbul isEIP3860 \<longrightarrow>
            TransactionGasCost msg isHomestead isIstanbul isEIP3860 isEIP2930 =
              Inl ErrIntrinsicGasOverflow)
       \<and> (apply_gates e msg t = (Inr gasLeft, t1) \<longrightarrow>
            (\<exists>c. TransactionGasCost msg (Homestead (config t)) (Istanbul (config t))
                    (EIP3860 (config t)) (EIP2930 (config t)) = Inr c
                 \<and> c \<le> tx_Gas msg \<and> gasLeft = tx_Gas msg - c)
            \<and> (tx_Type msg = AccessListTx \<longrightarrow> EIP2930 (config t)))"
proof -
  note eq = TransactionGasCost_nat [OF assms, of isHomestead isIstanbul isEIP3860 isEIP2930]
  have a: "payloadGas msg isHomestead isIstanbul isEIP3860 < 2 ^ 64 \<Longrightarrow>
            TransactionGasCost msg isHomestead isIstanbul isEIP3860 isEIP2930 =
              Inr (of_nat (payloadGas msg isHomestead isIstanbul isEIP3860
                           + accessListGas msg isEIP2930))"
    using eq by simp
  have b: "payloadGas msg isHomestead isIstanbul isEIP3860 + accessListGas msg isEIP2930 < 2 ^ 64 \<Longrightarrow>
            (\<exists>c. TransactionGasCost msg isHomestead isIstanbul isEIP3860 isEIP2930 = Inr c
                 \<and> unat c = payloadGas msg isHomestead isIstanbul isEIP3860
                            + accessListGas msg isEIP2930)"
  proof -
    assume lt: "payloadGas msg isHomestead isIstanbul isEIP3860 + accessListGas msg isEIP2930 < 2 ^ 64"
    then have "payloadGas msg isHomestead isIstanbul isEIP3860 < 2 ^ 64" by simp
    from a [OF this] unat_of_nat64 [OF lt] show ?thesis by blast
  qed
  have c: "2 ^ 64 \<le> payloadGas msg isHomestead isIstanbul isEIP3860 \<Longrightarrow>
            TransactionGasCost msg isHomestead isIstanbul isEIP3860 isEIP2930 =
              Inl ErrIntrinsicGasOverflow"
    using eq by simp
  from a b c apply_gates_intrinsic [of e msg t gasLeft t1] show ?thesis
    by blast
qed

text \<open>The scenario of the specification: an AccessList transaction with 2 addresses and
  3 storage keys, empty input, no creation, has intrinsic gas 31500.\<close>

theorem intrinsic_gas_witness:
  "TransactionGasCost alTx True True True True = Inr 31500"
proof -
  have len: "length (tx_Input alTx) < 2 ^ 63" by (simp add: alTx_def)
  have p: "payloadGas alTx True True True = 21000"
    by (simp add: payloadGas_def alTx_def zeroBytes_def)
  have a: "accessListGas alTx True = 2 * 2400 + 3 * 1900"
    by (simp add: accessListGas_def alTx_def)
  from intrinsic_gas [OF len, of True True True True] p a show ?thesis by simp
qed

text \<open>
  C5 as stated fails: the access-list surcharge is not unconditional. A DynamicFee
  transaction with 2 access-list addresses and 3 storage keys, empty input and a
  recipient has intrinsic gas 21000 when EIP-2930 is not active.
\<close>

theorem intrinsic_gas_counterexample:
  "tx_Type dynTx = DynamicFeeTx \<and> tx_To dynTx \<noteq> None \<and> tx_Input dynTx = []
   \<and> length (tx_AccessList dynTx) = 2
   \<and> sum_list (map (\<lambda>tuple. length (at_StorageKeys tuple)) (tx_AccessList dynTx)) = 3
   \<and> TransactionGasCost dynTx True True True False = Inr 21000"
  by (simp add: dynTx_def alTx_def TransactionGasCost_def payloadCost_def initCodeCost_def
      accessListCost_def IsContractCreation_def TxGas_def Let_def)

section \<open>Reverting a failed frame\<close>

lemma RevertTo_Copy: "RevertTo al (Copy snap) = snap"
  by (simp add: RevertTo_def Copy_def)

lemma restore_capture:
  assumes "EIP2929 (config t)" and "config t' = config t"
    and "(accessListOf t' = None) = (accessListOf t = None)"
  shows "accessListOf (restoreAccessList (captureAccessList t) t') = accessListOf t"
  using assms
  by (cases "ctx_AccessList (ctx t)"; cases "ctx_AccessList (ctx t')")
     (simp_all add: restoreAccessList_def captureAccessList_def accessListOf_def RevertTo_Copy)

lemma restore_state [simp]: "state (restoreAccessList snap t) = state t"
  by (simp add: restoreAccessList_def split: option.splits)

lemma restore_config [simp]: "config (restoreAccessList snap t) = config t"
  by (simp add: restoreAccessList_def split: option.splits)

lemma revert_kept:
  assumes "take (Suc n) (snapshots s') = xs @ [w]" and "length xs = n"
  shows "txn_RevertToSnapshot n s' = Inr (s'\<lparr>objs := w\<rparr>)"
proof -
  from assms have len: "n < length (snapshots s')"
    by (metis length_append_singleton length_take lessI min_less_iff_conj)
  have "snapshots s' ! n = take (Suc n) (snapshots s') ! n" by simp
  also have "\<dots> = w" using assms by (simp add: nth_append)
  finally show ?thesis using len by (simp add: txn_RevertToSnapshot_def)
qed

lemma Transfer_frame:
  assumes "Transfer a b v t = (r, t')"
  shows "snapshots (state t') = snapshots (state t)" and "config t' = config t"
    and "ctx t' = ctx t" and "r \<noteq> None \<Longrightarrow> t' = t"
    and "r \<noteq> None \<Longrightarrow> r = Some ErrInsufficientBalance"
  using assms
  by (auto simp: Transfer_def txn_SubBalance_def txn_AddBalance_def
      split: option.splits if_splits)


lemma capture_cong:
  "config t' = config t \<Longrightarrow> ctx t' = ctx t \<Longrightarrow> captureAccessList t' = captureAccessList t"
  by (simp add: captureAccessList_def)

lemma applyCall_frame:
  assumes wb: "runtimeKeepsJournal e" and depth: "\<not> c_Depth c > 1024 + 1"
  shows "(Failed (fst (applyCall e c callType t)) \<longrightarrow>
            objs (state (snd (applyCall e c callType t))) = objs (state t)
            \<and> (EIP2929 (config t) \<longrightarrow>
                 accessListOf (snd (applyCall e c callType t)) = accessListOf t))
       \<and> (\<not> Failed (fst (applyCall e c callType t)) \<longrightarrow>
            (\<exists>t3. accessListOf t3 = accessListOf t
                  \<and> applyCall e c callType t = run e c t3))"
proof -
  let ?n = "length (snapshots (state t))"
  let ?s1 = "(state t)\<lparr>snapshots := snapshots (state t) @ [objs (state t)]\<rparr>"
  let ?t1 = "t\<lparr>state := ?s1\<rparr>"
  let ?snap = "captureAccessList ?t1"
  let ?t2 = "?t1\<lparr>state := touchAccount e (c_Address c) ?s1\<rparr>"
  have snap: "?snap = captureAccessList t" by (rule capture_cong) simp_all
  have snap': "captureAccessList (t\<lparr>state := ?s1\<rparr>) = captureAccessList t"
    by (rule capture_cong) simp_all
  have keep2: "snapshots (state ?t2) = snapshots (state t) @ [objs (state t)]"
    using wb by (simp add: runtimeKeepsJournal_def)
  obtain tr t3 where tr: "(if callType = Call then Transfer (c_Caller c) (c_Address c) (c_Value c) ?t2
                else (None, ?t2)) = (tr, t3)"
    by (cases "if callType = Call then Transfer (c_Caller c) (c_Address c) (c_Value c) ?t2
                else (None, ?t2)")
  have t3: "snapshots (state t3) = snapshots (state t) @ [objs (state t)]"
    "config t3 = config t" "ctx t3 = ctx t" "tr \<noteq> None \<Longrightarrow> t3 = ?t2"
    using tr keep2 Transfer_frame [of "c_Caller c" "c_Address c" "c_Value c" ?t2 tr t3]
    by (auto split: if_splits)
  obtain result t4 where run: "run e c t3 = (result, t4)" by (cases "run e c t3")
  have t4: "take (Suc ?n) (snapshots (state t4)) = snapshots (state t) @ [objs (state t)]"
    "config t4 = config t" "(accessListOf t4 = None) = (accessListOf t = None)"
    using wb run t3 runtimeKeepsJournal_def [of e]
    by (auto simp: accessListOf_def dest!: spec [of _ c] spec [of _ t3])
  have unfold: "applyCall e c callType t =
      (case tr of
         Some err \<Rightarrow>
           (case txn_RevertToSnapshot ?n (state t3) of
              Inl revertErr \<Rightarrow> (failure (c_Gas c) revertErr, t3)
            | Inr s \<Rightarrow> (failure (c_Gas c) err, restoreAccessList ?snap (t3\<lparr>state := s\<rparr>)))
       | None \<Rightarrow>
           (if Failed result then
              (case txn_RevertToSnapshot ?n (state t4) of
                 Inl err \<Rightarrow> (failure (c_Gas c) err, t4)
               | Inr s \<Rightarrow> (result, restoreAccessList ?snap (t4\<lparr>state := s\<rparr>)))
            else (result, t4)))"
  proof (cases "callType = Call")
    case True
    with depth tr run show ?thesis
      by (simp add: applyCall_def txn_Snapshot_def Let_def split: option.splits)
  next
    case False
    with depth tr run show ?thesis
      by (auto simp: applyCall_def txn_Snapshot_def Let_def split: option.splits)
  qed
  have rev3: "txn_RevertToSnapshot ?n (state t3) = Inr ((state t3)\<lparr>objs := objs (state t)\<rparr>)"
    by (rule revert_kept [where xs = "snapshots (state t)"]) (simp_all add: t3)
  have rev4: "txn_RevertToSnapshot ?n (state t4) = Inr ((state t4)\<lparr>objs := objs (state t)\<rparr>)"
    by (rule revert_kept [where xs = "snapshots (state t)"]) (simp_all add: t4)
  show ?thesis
  proof (cases tr)
    case (Some err)
    have "accessListOf (restoreAccessList (captureAccessList t)
             (t3\<lparr>state := (state t3)\<lparr>objs := objs (state t)\<rparr>\<rparr>)) = accessListOf t"
      if "EIP2929 (config t)"
      by (rule restore_capture [OF that]) (simp_all add: t3 accessListOf_def)
    with Some show ?thesis
      by (simp add: unfold rev3 snap Failed_def failure_def)
  next
    case None
    show ?thesis
    proof (cases "Failed result")
      case True
      have "accessListOf (restoreAccessList (captureAccessList t)
               (t4\<lparr>state := (state t4)\<lparr>objs := objs (state t)\<rparr>\<rparr>)) = accessListOf t"
        if "EIP2929 (config t)"
        using t4(3) by (intro restore_capture [OF that]) (simp_all add: t4 accessListOf_def)
      with None True show ?thesis
        by (simp add: unfold rev4 snap)
    next
      case False
      have "accessListOf t3 = accessListOf t" by (simp add: accessListOf_def t3)
      with None False run show ?thesis
        by (auto simp: unfold)
    qed
  qed
qed


lemma IncrNonce_frame:
  "txn_IncrNonce a s = Inr s' \<Longrightarrow> snapshots s' = snapshots s"
  "txn_IncrNonce a s = Inl err \<Longrightarrow> err = ErrNonceUintOverflow"
  by (auto simp: txn_IncrNonce_def split: if_splits)

lemma applyCreate_finish_frame:
  assumes rev: "txn_RevertToSnapshot n (state t4) = Inr ((state t4)\<lparr>objs := w\<rparr>)"
    and fin: "applyCreate_finish c n snap (res, t4) = (r, t')"
  shows "Failed r \<Longrightarrow> Homestead (config t4) \<or> Err r \<noteq> Some ErrCodeStoreOutOfGas \<Longrightarrow>
           t' = restoreAccessList snap (t4\<lparr>state := (state t4)\<lparr>objs := w\<rparr>\<rparr>)"
    and "\<not> Failed r \<Longrightarrow> accessListOf t' = accessListOf t4"
  using fin rev
  by (auto simp: applyCreate_finish_def Let_def Failed_def failure_def accessListOf_def
      split: if_splits)

lemma applyCreate_frame:
  assumes wb: "runtimeKeepsJournal e" and depth: "\<not> c_Depth c > 1024 + 1"
    and nonce: "txn_IncrNonce (c_Caller c) (state t) = Inr s0"
    and res: "applyCreate e c t = (r, t')"
  shows "Failed r \<Longrightarrow>
           Err r \<notin> {Some ErrInsufficientBalance, Some ErrNotAuth, Some ErrNonceUintOverflow} \<Longrightarrow>
           Homestead (config t) \<or> Err r \<noteq> Some ErrCodeStoreOutOfGas \<Longrightarrow>
           objs (state t') = objs s0
           \<and> (EIP2929 (config t) \<longrightarrow> accessListOf t' = accessListOf t)"
    and "\<not> Failed r \<Longrightarrow>
           (\<exists>t3. accessListOf t3 = accessListOf t \<and> accessListOf t' = accessListOf (snd (run e c t3)))"
proof -
  let ?n = "length (snapshots s0)"
  let ?t0 = "t\<lparr>state := s0\<rparr>"
  let ?s1 = "s0\<lparr>snapshots := snapshots s0 @ [objs s0]\<rparr>"
  let ?t1 = "?t0\<lparr>state := ?s1\<rparr>"
  let ?snap = "captureAccessList ?t1"
  have snap: "?snap = captureAccessList t" by (rule capture_cong) simp_all
  have snap': "captureAccessList (t\<lparr>state := ?s1\<rparr>) = captureAccessList t"
    by (rule capture_cong) simp_all
  obtain er2 t2 where step: "(if EIP158 (config ?t1) then
                           (let s2 = createAccount e (c_Address c) (state ?t1) in
                            (case txn_IncrNonce (c_Address c) s2 of
                               Inl err \<Rightarrow> (Some err, ?t1\<lparr>state := s2\<rparr>)
                             | Inr s3 \<Rightarrow> (None, ?t1\<lparr>state := s3\<rparr>)))
                         else (None, ?t1)) = (er2, t2)"
    by (cases "if EIP158 (config ?t1) then
                           (let s2 = createAccount e (c_Address c) (state ?t1) in
                            (case txn_IncrNonce (c_Address c) s2 of
                               Inl err \<Rightarrow> (Some err, ?t1\<lparr>state := s2\<rparr>)
                             | Inr s3 \<Rightarrow> (None, ?t1\<lparr>state := s3\<rparr>)))
                         else (None, ?t1)")
  have keepc: "snapshots (createAccount e (c_Address c) ?s1) = snapshots s0 @ [objs s0]"
    using wb by (simp add: runtimeKeepsJournal_def)
  have t2: "er2 = None \<Longrightarrow> snapshots (state t2) = snapshots s0 @ [objs s0]"
    "config t2 = config t" "ctx t2 = ctx t" "er2 \<noteq> None \<Longrightarrow> er2 = Some ErrNonceUintOverflow"
    using step keepc
    by (auto simp: Let_def split: if_splits sum.splits dest: IncrNonce_frame)
  obtain tr t3 where tr: "Transfer (c_Caller c) (c_Address c) (c_Value c) t2 = (tr, t3)"
    by (cases "Transfer (c_Caller c) (c_Address c) (c_Value c) t2")
  note tf = Transfer_frame [OF tr]
  obtain result t4 where run: "run e c t3 = (result, t4)" by (cases "run e c t3")
  have t4: "er2 = None \<Longrightarrow> take (Suc ?n) (snapshots (state t4)) = snapshots s0 @ [objs s0]"
    "config t4 = config t" "(accessListOf t4 = None) = (accessListOf t = None)"
    using wb run t2 tf runtimeKeepsJournal_def [of e]
    by (auto simp: accessListOf_def dest!: spec [of _ c] spec [of _ t3])
  have rev4: "er2 = None \<Longrightarrow>
      txn_RevertToSnapshot ?n (state t4) = Inr ((state t4)\<lparr>objs := objs s0\<rparr>)"
    by (rule revert_kept [where xs = "snapshots s0"]) (simp_all add: t4)
  have unfold: "applyCreate e c t =
      (if hasCodeOrNonce e ?t0 (c_Address c) then (failure 0 ErrContractAddressCollision, ?t0)
       else if EIP3860 (config t) \<and> c_Depth c > 1 \<and> length (c_Code c) > TxPoolMaxInitCodeSize
         then (failure 0 ErrOutOfGas, restoreAccessList ?snap ?t1)
       else (case er2 of
               Some err \<Rightarrow> (failure 0 err, t2)
             | None \<Rightarrow>
                 (case tr of
                    Some err \<Rightarrow> (failure (c_Gas c) err, t3)
                  | None \<Rightarrow>
                      if deploymentDenied e c t3 then (failure 0 ErrNotAuth, t3)
                      else applyCreate_finish c ?n ?snap (result, t4))))"
  proof (cases "EIP158 (config t)")
    case False
    with step have "er2 = None" "t2 = ?t1" by simp_all
    with depth nonce False tr run show ?thesis
      by (simp add: applyCreate_def txn_Snapshot_def Let_def split: option.splits)
  next
    case True
    show ?thesis
    proof (cases "txn_IncrNonce (c_Address c) (createAccount e (c_Address c) ?s1)")
      case (Inl err)
      with step True have "er2 = Some err" by (simp add: Let_def)
      moreover from Inl step True
      have "t2 = ?t1\<lparr>state := createAccount e (c_Address c) ?s1\<rparr>" by (simp add: Let_def)
      ultimately show ?thesis using depth nonce True Inl
        by (simp add: applyCreate_def txn_Snapshot_def Let_def split: option.splits)
    next
      case (Inr s3)
      with step True have "er2 = None" by (simp add: Let_def)
      moreover from Inr step True have "t2 = ?t1\<lparr>state := s3\<rparr>" by (simp add: Let_def)
      ultimately show ?thesis using depth nonce True Inr tr run
        by (simp add: applyCreate_def txn_Snapshot_def Let_def split: option.splits)
    qed
  qed
  have al1: "EIP2929 (config t) \<Longrightarrow> accessListOf (restoreAccessList (captureAccessList t) ?t1) = accessListOf t"
    by (rule restore_capture) (simp_all add: accessListOf_def)
  have al4: "EIP2929 (config t) \<Longrightarrow>
      accessListOf (restoreAccessList (captureAccessList t)
        (t4\<lparr>state := (state t4)\<lparr>objs := objs s0\<rparr>\<rparr>)) = accessListOf t"
    using t4(3) by (intro restore_capture) (simp_all add: t4 accessListOf_def)
  {
    assume f: "Failed r"
      and ex: "Err r \<notin> {Some ErrInsufficientBalance, Some ErrNotAuth, Some ErrNonceUintOverflow}"
      and hs: "Homestead (config t) \<or> Err r \<noteq> Some ErrCodeStoreOutOfGas"
    show "objs (state t') = objs s0
           \<and> (EIP2929 (config t) \<longrightarrow> accessListOf t' = accessListOf t)"
    proof (cases "hasCodeOrNonce e ?t0 (c_Address c)")
      case True
      with res unfold show ?thesis by (auto simp: accessListOf_def)
    next
      case noCollision: False
      show ?thesis
      proof (cases "EIP3860 (config t) \<and> c_Depth c > 1 \<and> length (c_Code c) > TxPoolMaxInitCodeSize")
        case True
        with res unfold noCollision al1 show ?thesis by (auto simp: snap snap')
      next
        case small: False
        from res unfold noCollision small ex t2(4) have er2: "er2 = None"
          by (cases er2) (auto simp: failure_def)
        from res unfold noCollision small ex er2 tf(5) have trn: "tr = None"
          by (cases tr) (auto simp: failure_def)
        from res unfold noCollision small ex er2 trn
        have fin: "applyCreate_finish c ?n ?snap (result, t4) = (r, t')"
          by (auto simp: failure_def split: if_splits)
        from applyCreate_finish_frame(1) [OF rev4 [OF er2] fin f] hs t4(2)
        have "t' = restoreAccessList ?snap (t4\<lparr>state := (state t4)\<lparr>objs := objs s0\<rparr>\<rparr>)"
          by simp
        with al4 show ?thesis by (simp add: snap snap')
      qed
    qed
  }
  {
    assume nf: "\<not> Failed r"
    from res unfold nf have fin: "applyCreate_finish c ?n ?snap (result, t4) = (r, t')"
      and er2: "er2 = None" and trn: "tr = None"
      by (auto simp: failure_def Failed_def split: if_splits option.splits)
    from applyCreate_finish_frame(2) [OF rev4 [OF er2] fin nf]
    have "accessListOf t' = accessListOf t4" .
    moreover have "accessListOf t3 = accessListOf t"
      using tf(3) t2(3) by (simp add: accessListOf_def)
    ultimately show "\<exists>t3. accessListOf t3 = accessListOf t
        \<and> accessListOf t' = accessListOf (snd (run e c t3))"
      using run by (intro exI [of _ t3]) simp
  }
qed


lemma AddSlot_keeps:
  "ContainsAddress al b \<Longrightarrow> ContainsAddress (snd (AddSlot a k al)) b"
  "ContainsSlot al b j \<Longrightarrow> ContainsSlot (snd (AddSlot a k al)) b j"
  by (auto simp: AddSlot_def AddAddress_def ContainsAddress_def ContainsSlot_def Let_def
      split: option.splits if_splits)

lemma env1_keeps: "runtimeKeepsJournal env1"
  by (simp add: runtimeKeepsJournal_def env1_def env0_def storeRun_def Let_def SetStorage_def
      txn_SetState_def accessListOf_def)

lemma env1_warms: "runtimeOnlyWarms env1"
  by (auto simp: runtimeOnlyWarms_def env1_def env0_def storeRun_def Let_def SetStorage_def
      warmAddress_def warmSlot_def accessListOf_def AddSlot_keeps split: option.splits)

lemmas frame_defs =
  applyCall_def applyCreate_def applyCreate_finish_def Callx_def storeRun_def
  txn_Snapshot_def txn_RevertToSnapshot_def txn_IncrNonce_def Transfer_def txn_SubBalance_def
  txn_AddBalance_def hasCodeOrNonce_def txn_GetNonce_def deploymentDenied_def
  captureAccessList_def restoreAccessList_def SetStorage_def txn_SetState_def txn_SetCode_def
  Failed_def failure_def Let_def TxPoolMaxInitCodeSize_def SpuriousDragonMaxCodeSize_def
  accessListOf_def RevertTo_def Copy_def

lemmas frame_instances =
  env1_def env0_def warmHost_def hostFrontier_def host0_def world0_def forks0_def frontier_def
  failingCall_def goodCall_def shortCreate_def NewContractCall_def NewContractCreation_def
  warmList_def

lemma failingCall_warmHost:
  "Failed (fst (applyCall env1 failingCall Call warmHost))"
  "EIP2929 (config warmHost)" "objs (state warmHost) = world0"
  "accessListOf warmHost = Some warmList"
  by (simp_all add: frame_defs frame_instances)

lemma shortCreate_warmHost:
  "\<not> c_Depth shortCreate > 1024 + 1"
  "txn_IncrNonce (c_Caller shortCreate) (state warmHost)
     = Inr \<lparr>objs = world0\<lparr>nonces := (nonces world0)(10 := 1)\<rparr>, snapshots = []\<rparr>"
  "Failed (fst (applyCreate env1 shortCreate warmHost))"
  "Err (fst (applyCreate env1 shortCreate warmHost)) = Some ErrCodeStoreOutOfGas"
  "Homestead (config warmHost)"
  by (simp_all add: frame_defs frame_instances)

lemma goodCall_warmHost:
  "\<not> Failed (fst (Callx env1 goodCall warmHost))"
  "warmAddress warmHost 10"
  by (simp_all add: frame_defs frame_instances warmAddress_def ContainsAddress_def)

text \<open>C6, amended. Let the runtime keep the journal's snapshot stack, the fork
  configuration and the access-list pointer, and only ever add to the access list.
  A CALL frame that fails leaves the world state equal to the state at the frame's entry and,
  under EIP-2929, the access list equal to the list at entry. A CREATE frame within the depth
  limit, whose caller nonce was incremented to give the state \<open>s0\<close> of the frame's snapshot,
  and that fails with an error other than insufficient balance, not-authorised or nonce
  overflow, and other than code-store-out-of-gas before Homestead, leaves the world state
  equal to \<open>s0\<close> and, under EIP-2929, the access list equal to the list at entry. After a
  frame that succeeds every address and every slot that was warm at entry is still warm.\<close>

theorem frame_revert:
  assumes wb: "runtimeKeepsJournal e" and ow: "runtimeOnlyWarms e"
  shows "(Failed (fst (applyCall e c callType t)) \<longrightarrow>
            objs (state (snd (applyCall e c callType t))) = objs (state t)
            \<and> (EIP2929 (config t) \<longrightarrow>
                 accessListOf (snd (applyCall e c callType t)) = accessListOf t))
       \<and> (\<not> c_Depth c > 1024 + 1
            \<and> txn_IncrNonce (c_Caller c) (state t) = Inr s0
            \<and> Failed (fst (applyCreate e c t))
            \<and> Err (fst (applyCreate e c t)) \<notin>
                {Some ErrInsufficientBalance, Some ErrNotAuth, Some ErrNonceUintOverflow}
            \<and> (Homestead (config t) \<or> Err (fst (applyCreate e c t)) \<noteq> Some ErrCodeStoreOutOfGas) \<longrightarrow>
            objs (state (snd (applyCreate e c t))) = objs s0
            \<and> (EIP2929 (config t) \<longrightarrow>
                 accessListOf (snd (applyCreate e c t)) = accessListOf t))
       \<and> (\<not> Failed (fst (Callx e c t)) \<longrightarrow>
            (warmAddress t a \<longrightarrow> warmAddress (snd (Callx e c t)) a)
            \<and> (warmSlot t a k \<longrightarrow> warmSlot (snd (Callx e c t)) a k))"
proof -
  have warm: "warmAddress t3 = warmAddress t \<and> warmSlot t3 = warmSlot t"
    if "accessListOf t3 = accessListOf t" for t3 t
    using that by (simp add: warmAddress_def warmSlot_def fun_eq_iff)
  have kept: "(warmAddress t a \<longrightarrow> warmAddress t' a) \<and> (warmSlot t a k \<longrightarrow> warmSlot t' a k)"
    if "accessListOf t3 = accessListOf t" and "accessListOf t' = accessListOf (snd (run e c t3))"
    for t3 t'
  proof -
    from ow have "(warmAddress t3 a \<longrightarrow> warmAddress (snd (run e c t3)) a)
        \<and> (warmSlot t3 a k \<longrightarrow> warmSlot (snd (run e c t3)) a k)"
      by (simp add: runtimeOnlyWarms_def)
    with warm [OF that(1)] warm [OF that(2)] show ?thesis by simp
  qed
  have p1: "Failed (fst (applyCall e c ct t)) \<longrightarrow>
            objs (state (snd (applyCall e c ct t))) = objs (state t)
            \<and> (EIP2929 (config t) \<longrightarrow>
                 accessListOf (snd (applyCall e c ct t)) = accessListOf t)" for ct
  proof (cases "c_Depth c > 1024 + 1")
    case True
    then show ?thesis by (simp add: applyCall_def)
  next
    case False
    from applyCall_frame [OF wb False] show ?thesis by blast
  qed
  have p2: "\<not> c_Depth c > 1024 + 1
            \<and> txn_IncrNonce (c_Caller c) (state t) = Inr s0
            \<and> Failed (fst (applyCreate e c t))
            \<and> Err (fst (applyCreate e c t)) \<notin>
                {Some ErrInsufficientBalance, Some ErrNotAuth, Some ErrNonceUintOverflow}
            \<and> (Homestead (config t) \<or> Err (fst (applyCreate e c t)) \<noteq> Some ErrCodeStoreOutOfGas) \<longrightarrow>
            objs (state (snd (applyCreate e c t))) = objs s0
            \<and> (EIP2929 (config t) \<longrightarrow>
                 accessListOf (snd (applyCreate e c t)) = accessListOf t)"
  proof (intro impI, elim conjE)
    assume depth: "\<not> c_Depth c > 1024 + 1"
      and nonce: "txn_IncrNonce (c_Caller c) (state t) = Inr s0"
      and f: "Failed (fst (applyCreate e c t))"
      and ex: "Err (fst (applyCreate e c t)) \<notin>
                {Some ErrInsufficientBalance, Some ErrNotAuth, Some ErrNonceUintOverflow}"
      and hs: "Homestead (config t) \<or> Err (fst (applyCreate e c t)) \<noteq> Some ErrCodeStoreOutOfGas"
    from applyCreate_frame(1) [OF wb depth nonce prod.collapse [symmetric] f ex hs]
    show "objs (state (snd (applyCreate e c t))) = objs s0
            \<and> (EIP2929 (config t) \<longrightarrow>
                 accessListOf (snd (applyCreate e c t)) = accessListOf t)" .
  qed
  have p3: "\<not> Failed (fst (Callx e c t)) \<longrightarrow>
            (warmAddress t a \<longrightarrow> warmAddress (snd (Callx e c t)) a)
            \<and> (warmSlot t a k \<longrightarrow> warmSlot (snd (Callx e c t)) a k)"
  proof
    assume nf: "\<not> Failed (fst (Callx e c t))"
    have depth: "\<not> c_Depth c > 1024 + 1"
      using nf by (auto simp: Callx_def applyCall_def applyCreate_def Failed_def failure_def
          split: if_splits)
    show "(warmAddress t a \<longrightarrow> warmAddress (snd (Callx e c t)) a)
            \<and> (warmSlot t a k \<longrightarrow> warmSlot (snd (Callx e c t)) a k)"
    proof (cases "c_Type c = Create")
      case False
      with nf have nf': "\<not> Failed (fst (applyCall e c (c_Type c) t))" by (simp add: Callx_def)
      with applyCall_frame [OF wb depth, of "c_Type c" t]
      obtain t3 where "accessListOf t3 = accessListOf t"
        and "applyCall e c (c_Type c) t = run e c t3" by blast
      with kept [of t3 "snd (applyCall e c (c_Type c) t)"] False show ?thesis
        by (simp add: Callx_def)
    next
      case True
      with nf have nf': "\<not> Failed (fst (applyCreate e c t))" by (simp add: Callx_def)
      then obtain s1 where nonce: "txn_IncrNonce (c_Caller c) (state t) = Inr s1"
        using depth
        by (cases "txn_IncrNonce (c_Caller c) (state t)")
           (auto simp: applyCreate_def Failed_def failure_def)
      from applyCreate_frame(2) [OF wb depth nonce prod.collapse [symmetric] nf']
      obtain t3 where "accessListOf t3 = accessListOf t"
        and "accessListOf (snd (applyCreate e c t)) = accessListOf (snd (run e c t3))" by blast
      with kept [of t3 "snd (applyCreate e c t)"] True show ?thesis
        by (simp add: Callx_def)
    qed
  qed
  show ?thesis by (rule conjI [OF p1 conjI [OF p2 p3]])
qed

text \<open>The theorem at work, with the interpreter \<open>storeRun\<close> and all forks active. A CALL
  with 50 gas fails after the store: the world is the world at entry and the access list is
  the list at entry. A CREATE with 150 gas fails with code-store-out-of-gas after the store and
  the transfer of the value: the world is the world after the caller's nonce increment. A
  CALL with 150 gas succeeds: the sender, warm at entry, is still warm.\<close>

theorem frame_revert_witness:
  "runtimeKeepsJournal env1 \<and> runtimeOnlyWarms env1
   \<and> Failed (fst (applyCall env1 failingCall Call warmHost))
   \<and> objs (state (snd (applyCall env1 failingCall Call warmHost))) = world0
   \<and> accessListOf (snd (applyCall env1 failingCall Call warmHost)) = Some warmList
   \<and> Failed (fst (applyCreate env1 shortCreate warmHost))
   \<and> objs (state (snd (applyCreate env1 shortCreate warmHost)))
       = world0\<lparr>nonces := (nonces world0)(10 := 1)\<rparr>
   \<and> accessListOf (snd (applyCreate env1 shortCreate warmHost)) = Some warmList
   \<and> \<not> Failed (fst (Callx env1 goodCall warmHost))
   \<and> warmAddress warmHost 10
   \<and> warmAddress (snd (Callx env1 goodCall warmHost)) 10"
proof -
  note fr = frame_revert [OF env1_keeps env1_warms]
  from fr [where c = failingCall and callType = Call and t = warmHost] failingCall_warmHost
  have call: "objs (state (snd (applyCall env1 failingCall Call warmHost))) = world0
      \<and> accessListOf (snd (applyCall env1 failingCall Call warmHost)) = Some warmList"
    by simp
  from fr [where c = shortCreate and t = warmHost
      and ?s0.0 = "\<lparr>objs = world0\<lparr>nonces := (nonces world0)(10 := 1)\<rparr>, snapshots = []\<rparr>"]
    shortCreate_warmHost failingCall_warmHost(2,4)
  have create: "objs (state (snd (applyCreate env1 shortCreate warmHost)))
       = world0\<lparr>nonces := (nonces world0)(10 := 1)\<rparr>
      \<and> accessListOf (snd (applyCreate env1 shortCreate warmHost)) = Some warmList"
    by simp
  from fr [where c = goodCall and t = warmHost and a = 10] goodCall_warmHost
  have good: "warmAddress (snd (Callx env1 goodCall warmHost)) 10" by simp
  from call create good env1_keeps env1_warms failingCall_warmHost(1) shortCreate_warmHost(3)
    goodCall_warmHost
  show ?thesis by simp
qed

text \<open>C6 as stated fails for a CREATE frame before Homestead. The interpreter \<open>storeRun\<close>
  keeps the journal and only adds to the access list. The creation below, with 150 gas and
  one byte of code, returns from the interpreter with 50 gas, less than the 200 that storing
  the code costs: the frame fails with code-store-out-of-gas. Its snapshot, the only one on
  the stack, has slot 1 of the new account at 0 and its balance at 0; the state after the
  frame has the slot at 1 and the balance at 5.\<close>

theorem frame_revert_counterexample:
  "runtimeKeepsJournal env1 \<and> runtimeOnlyWarms env1
   \<and> Failed (fst (applyCreate env1 shortCreate hostFrontier))
   \<and> Err (fst (applyCreate env1 shortCreate hostFrontier)) = Some ErrCodeStoreOutOfGas
   \<and> length (snapshots (state (snd (applyCreate env1 shortCreate hostFrontier)))) = 1
   \<and> storage (snapshots (state (snd (applyCreate env1 shortCreate hostFrontier))) ! 0) 0x99 1 = 0
   \<and> balances (snapshots (state (snd (applyCreate env1 shortCreate hostFrontier))) ! 0) 0x99 = 0
   \<and> storage (objs (state (snd (applyCreate env1 shortCreate hostFrontier)))) 0x99 1 = 1
   \<and> balances (objs (state (snd (applyCreate env1 shortCreate hostFrontier)))) 0x99 = 5"
  by (simp add: env1_keeps env1_warms) (simp add: frame_defs frame_instances)

section \<open>The gas of the engine-execute precompile, over the naturals\<close>

lemma unat_add64:
  "unat (a :: u64) + unat b < 2 ^ 64 \<Longrightarrow> unat (a + b) = unat a + unat b"
  using unat_add_lem [of a b] by simp

lemma logCostUnits_nat:
  assumes "375 + 375 * topics + 8 * n < 2 ^ 64"
  shows "unat (logCostUnits topics n) = 375 + 375 * topics + 8 * n"
proof -
  have "logCostUnits topics n = of_nat (375 + 375 * topics + 8 * n)"
    by (simp add: logCostUnits_def)
  then show ?thesis using assms by (simp only: unat_of_nat64)
qed

lemma callOverheadUnits_nat:
  assumes "n < 2 ^ 63"
  shows "unat (callOverheadUnits to gasLimit n) =
           (if to = 0 \<or> gasLimit = 0 then 0 else 700 + 2600 + 3 * ((n + 31) div 32))"
proof (cases "to = 0 \<or> gasLimit = 0")
  case True
  then show ?thesis by (auto simp: callOverheadUnits_def)
next
  case False
  have "callOverheadUnits to gasLimit n = of_nat (700 + 2600 + 3 * ((n + 31) div 32))"
    using False by (simp add: callOverheadUnits_def Let_def words_of_nat [OF assms])
  moreover have "700 + 2600 + 3 * ((n + 31) div 32) < (2 :: nat) ^ 64" using assms by simp
  ultimately show ?thesis using False by (simp only: unat_of_nat64 if_False)
qed

lemma engineExecute_gas_nat:
  assumes sel: "4 \<le> length input" "take 4 input = id_ENGINE_EXECUTE a"
    and dec: "decode_ENGINE_EXECUTE a (drop 4 input) = Some (grant, call, meta)"
    and len: "length (call_Data call) < 2 ^ 63"
    and fit: "unat (call_ValidationGas call)
              + ((375 + 375 * 1 + 8 * calcEngineMetaLen grant meta)
                 + (375 + 375 * 1 + 8 * calcEngineExtrasLen meta))
              + (if call_To call = 0 \<or> call_GasLimit call = 0 then 0
                 else 700 + 2600 + 3 * ((length (call_Data call) + 31) div 32))
              + (if call_To call \<noteq> 0 then unat (call_GasLimit call) else 0) < 2 ^ 64"
  shows "unat (engineExecute_gas a input) =
           unat (call_ValidationGas call)
           + ((375 + 375 * 1 + 8 * calcEngineMetaLen grant meta)
              + (375 + 375 * 1 + 8 * calcEngineExtrasLen meta))
           + (if call_To call = 0 \<or> call_GasLimit call = 0 then 0
              else 700 + 2600 + 3 * ((length (call_Data call) + 31) div 32))
           + (if call_To call \<noteq> 0 then unat (call_GasLimit call) else 0)"
proof -
  let ?v = "call_ValidationGas call"
  let ?m = "logCostUnits 1 (calcEngineMetaLen grant meta)"
  let ?x = "logCostUnits 1 (calcEngineExtrasLen meta)"
  let ?o = "callOverheadUnits (call_To call) (call_GasLimit call) (length (call_Data call))"
  let ?e = "if call_To call \<noteq> 0 then call_GasLimit call else 0"
  have gas: "engineExecute_gas a input = ?v + (?m + ?x) + ?o + ?e"
    using sel dec
    by (auto simp: engineExecute_gas_def precompileGasUnits_def calcFee_def logUnits_def
        engineOverheadGas_def word_greater_zero_iff Let_def)
  have m: "unat ?m = 375 + 375 * 1 + 8 * calcEngineMetaLen grant meta"
    using fit by (intro logCostUnits_nat) (simp split: if_splits)
  have x: "unat ?x = 375 + 375 * 1 + 8 * calcEngineExtrasLen meta"
    using fit by (intro logCostUnits_nat) (simp split: if_splits)
  have o: "unat ?o = (if call_To call = 0 \<or> call_GasLimit call = 0 then 0
                 else 700 + 2600 + 3 * ((length (call_Data call) + 31) div 32))"
    by (rule callOverheadUnits_nat [OF len])
  have e: "unat ?e = (if call_To call \<noteq> 0 then unat (call_GasLimit call) else 0)" by simp
  have mx: "unat (?m + ?x) = unat ?m + unat ?x"
    using fit m x by (intro unat_add64) (simp split: if_splits)
  have vmx: "unat (?v + (?m + ?x)) = unat ?v + unat (?m + ?x)"
    using fit m x mx by (intro unat_add64) (simp split: if_splits)
  have vmxo: "unat (?v + (?m + ?x) + ?o) = unat (?v + (?m + ?x)) + unat ?o"
    using fit m x mx vmx o by (intro unat_add64) (simp split: if_splits)
  have all: "unat (?v + (?m + ?x) + ?o + ?e) = unat (?v + (?m + ?x) + ?o) + unat ?e"
    using fit m x mx vmx vmxo o by (intro unat_add64) (simp split: if_splits)
  show ?thesis
    by (simp only: gas all vmxo vmx mx m x o e)
qed

lemma engineExecute_gas_nat_instance:
  "unat (engineExecute_gas abi0 [1, 0, 0, 0]) = 27388"
proof -
  have sel: "take 4 [1, 0, 0, 0] = id_ENGINE_EXECUTE abi0" by (simp add: abi0_def)
  have dec: "decode_ENGINE_EXECUTE abi0 (drop 4 [1, 0, 0, 0]) = Some (grant0, call0, meta0)"
    by (simp add: abi0_def)
  have "unat (engineExecute_gas abi0 [1, 0, 0, 0]) =
           unat (call_ValidationGas call0)
           + ((375 + 375 * 1 + 8 * calcEngineMetaLen grant0 meta0)
              + (375 + 375 * 1 + 8 * calcEngineExtrasLen meta0))
           + (if call_To call0 = 0 \<or> call_GasLimit call0 = 0 then 0
              else 700 + 2600 + 3 * ((length (call_Data call0) + 31) div 32))
           + (if call_To call0 \<noteq> 0 then unat (call_GasLimit call0) else 0)"
    by (rule engineExecute_gas_nat [OF _ sel dec])
       (simp_all add: grant0_def call0_def meta0_def fee_defs)
  also have "\<dots> = 27388"
    by (simp add: grant0_def call0_def meta0_def fee_defs)
  finally show ?thesis .
qed

text \<open>
  C4 at a failing input. The input below has the selector \<open>ENGINE_EXECUTE\<close> and decodes,
  with \<open>validation_gas = 2^64 - 1\<close>, no target and no gas limit. The sum of the claim,
  validation gas + log units + call overhead + execution limit, is \<open>2^64 + 7387\<close>;
  \<open>gas\<close> adds in 64 bits and returns 7387, less than the validation gas alone. Where the
  sum is below \<open>2^64\<close>, \<open>gas\<close> returns it (\<open>engineExecute_gas_nat\<close>), and when decoding
  fails it returns 21000.
\<close>

theorem engineExecute_gas_wraps:
  "take 4 [1, 0, 0, 0] = id_ENGINE_EXECUTE abi2
   \<and> decode_ENGINE_EXECUTE abi2 (drop 4 [1, 0, 0, 0]) = Some (grant0, call2, meta0)
   \<and> unat (call_ValidationGas call2) = 18446744073709551615
   \<and> unat (call_ValidationGas call2)
       + ((375 + 375 * 1 + 8 * calcEngineMetaLen grant0 meta0)
          + (375 + 375 * 1 + 8 * calcEngineExtrasLen meta0))
       + (if call_To call2 = 0 \<or> call_GasLimit call2 = 0 then 0
          else 700 + 2600 + 3 * ((length (call_Data call2) + 31) div 32))
       + (if call_To call2 \<noteq> 0 then unat (call_GasLimit call2) else 0)
       = 18446744073709551616 + 7387
   \<and> unat (engineExecute_gas abi2 [1, 0, 0, 0]) = 7387
   \<and> engineExecute_gas abi2 [1, 0, 0, 0] < call_ValidationGas call2
   \<and> engineExecute_gas abi2 [1, 0, 0, 0, 255] = 21000"
  by (simp add: engineExecute_gas_def abi2_def abi0_def call2_def call0_def grant0_def
      meta0_def fee_defs minMalformedExecuteGas_def)

section \<open>Session identifiers and the inner call\<close>








lemma journalKept_refl [simp]: "journalKept t t"
  by (simp add: journalKept_def)




lemma journalKept_restore [simp]:
  "journalKept t (restoreAccessList snap t') = journalKept t t'"
  by (simp add: journalKept_def restoreAccessList_def accessListOf_def split: option.splits)

lemma journalKept_objs [simp]:
  "journalKept t (t'\<lparr>state := (state t')\<lparr>objs := w\<rparr>\<rparr>) = journalKept t t'"
  by (simp add: journalKept_def accessListOf_def)


lemma journal_SetStorage [simp]: "journalKept t (SetStorage a k v t)"
  by (simp add: journalKept_def SetStorage_def txn_SetState_def accessListOf_def)














lemma storedNext_run [simp]: "storedNext (e\<lparr>run := r\<rparr>) = storedNext e"
  by (simp add: storedNext_def fun_eq_iff)











end
